theory Spec2Isabelle
  imports Main
begin

text \<open>
  The acquisition core of VibeTube (\<open>app/ytdlp_utils.py\<close>, with the poller loop and the
  settings routes of \<open>app/main.py\<close>): the credential cache, the source resolver, the
  download worker, the selection of the queue processor, the source poller and the
  library scanner, as functions on an explicit state. Every function takes the
  environment (the external tool and the libraries) and the state, and returns its
  result, or the exception it raises, together with the new state. Logging and the
  assignments to \<open>os.environ\<close> have no effect on the state and are left out.
\<close>

section \<open>Strings, paths and JSON objects\<close>

text \<open>
  Python strings are modelled as \<^typ>\<open>string\<close>, one \<^typ>\<open>char\<close> per code point.
  \<open>str.strip()\<close> removes leading and trailing white space; \<open>str.splitlines()\<close> cuts at
  line boundaries and yields no final empty line. Both are given for the ASCII range.
\<close>

definition is_space :: "char \<Rightarrow> bool" where
  "is_space c = (c \<in> set [CHR 0x20, CHR 0x09, CHR 0x0A, CHR 0x0B, CHR 0x0C, CHR 0x0D,
                           CHR 0x1C, CHR 0x1D, CHR 0x1E, CHR 0x1F])"

definition strip :: "string \<Rightarrow> string" where
  "strip s = rev (dropWhile is_space (rev (dropWhile is_space s)))"

definition is_linebreak :: "char \<Rightarrow> bool" where
  "is_linebreak c = (c \<in> set [CHR 0x0A, CHR 0x0D, CHR 0x0B, CHR 0x0C, CHR 0x1C, CHR 0x1D, CHR 0x1E])"

fun splitlines_from :: "string \<Rightarrow> string \<Rightarrow> string list" where
  "splitlines_from acc [] = (if acc = [] then [] else [rev acc])"
| "splitlines_from acc [c] = (if is_linebreak c then [rev acc] else [rev (c # acc)])"
| "splitlines_from acc (c # d # cs) =
     (if c = CHR 0x0D \<and> d = CHR 0x0A then rev acc # splitlines_from [] cs
      else if is_linebreak c then rev acc # splitlines_from [] (d # cs)
      else splitlines_from (c # acc) (d # cs))"

definition splitlines :: "string \<Rightarrow> string list" where
  "splitlines s = splitlines_from [] s"

text \<open>
  The nine characters that \<open>download_video\<close> replaces by an underscore, in the order of
  the chained \<open>replace\<close> calls: slash, backslash, colon, question mark, double quote,
  asterisk, less-than, greater-than, bar. The replacement character is none of them, so the
  chain is one pass over the string.
\<close>

definition unsafe_chars :: "char list" where
  "unsafe_chars = [CHR ''/'', CHR 0x5C, CHR '':'', CHR ''?'', CHR 0x22, CHR ''*'',
                   CHR ''<'', CHR ''>'', CHR ''|'']"

definition sanitize :: "string \<Rightarrow> string" where
  "sanitize s = map (\<lambda>c. if c \<in> set unsafe_chars then CHR ''_'' else c) s"

text \<open>\<open>os.path.join\<close> of two components on POSIX.\<close>

definition path_join :: "string \<Rightarrow> string \<Rightarrow> string" where
  "path_join a b =
     (if b \<noteq> [] \<and> hd b = CHR ''/'' then b
      else if a = [] \<or> last a = CHR ''/'' then a @ b
      else a @ ''/'' @ b)"

text \<open>
  \<open>os.path.splitext(p)[0]\<close> on POSIX: the path up to the last dot of its last component,
  unless that component has no dot after its leading dots.
\<close>

definition splitext_root :: "string \<Rightarrow> string" where
  "splitext_root p =
     (let base = rev (takeWhile (\<lambda>c. c \<noteq> CHR ''/'') (rev p));
          dir = take (length p - length base) p;
          body = dropWhile (\<lambda>c. c = CHR ''.'') base;
          dots = take (length base - length body) base
      in if CHR ''.'' \<in> set body
         then dir @ dots @ rev (tl (dropWhile (\<lambda>c. c \<noteq> CHR ''.'') (rev body)))
         else p)"

definition basename :: "string \<Rightarrow> string" where
  "basename p = rev (takeWhile (\<lambda>c. c \<noteq> CHR ''/'') (rev p))"

text \<open>
  The external tool prints JSON objects. Of their fields the core reads \<open>id\<close>, \<open>title\<close>,
  \<open>channel\<close>, \<open>upload_date\<close> and \<open>thumbnail\<close>, which are strings or null. A Python dict is an
  association list in insertion order with \<open>in\<close>, \<open>d[k] = v\<close> and \<open>d.get(k, default)\<close>.
\<close>

datatype jval = JNull | JStr string

type_synonym jdict = "(string \<times> jval) list"

definition dict_has :: "jdict \<Rightarrow> string \<Rightarrow> bool" where
  "dict_has d k = (map_of d k \<noteq> None)"

fun dict_set :: "string \<Rightarrow> jval \<Rightarrow> jdict \<Rightarrow> jdict" where
  "dict_set k v [] = [(k, v)]"
| "dict_set k v ((k', v') # d) = (if k = k' then (k, v) # d else (k', v') # dict_set k v d)"

definition dict_get :: "jdict \<Rightarrow> string \<Rightarrow> jval \<Rightarrow> jval" where
  "dict_get d k dflt = (case map_of d k of None \<Rightarrow> dflt | Some v \<Rightarrow> v)"

text \<open>Truthiness of a value, and its text when formatted into an f-string.\<close>

fun truthy :: "jval \<Rightarrow> bool" where
  "truthy JNull = False"
| "truthy (JStr s) = (s \<noteq> [])"

fun py_str :: "jval \<Rightarrow> string" where
  "py_str JNull = ''None''"
| "py_str (JStr s) = s"

definition truthy_opt :: "string option \<Rightarrow> bool" where
  "truthy_opt so = (case so of None \<Rightarrow> False | Some s \<Rightarrow> s \<noteq> [])"

fun first_index :: "('a \<Rightarrow> bool) \<Rightarrow> 'a list \<Rightarrow> nat option" where
  "first_index P [] = None"
| "first_index P (x # xs) =
     (if P x then Some 0 else (case first_index P xs of None \<Rightarrow> None | Some i \<Rightarrow> Some (Suc i)))"


section \<open>The catalog store (\<open>models.py\<close>)\<close>

text \<open>
  The tables the core reads and writes. A nullable column is an \<^typ>\<open>'a option\<close>. The
  surrogate key of a video row is never read by the core and is left out; the Boolean
  columns are only ever written with \<open>True\<close> or \<open>False\<close>. Time stamps are readings of a
  clock that counts up. A table is the list of its rows in storage order; an ORM object
  is the row at its index. Queries and commits are taken to succeed, and one function
  runs at a time.
\<close>

record subfolder =
  subfolder_pk :: nat
  subfolder_name :: string
  subfolder_path :: string
  is_default :: bool

record source =
  source_pk :: nat
  source_type :: string
  source_id :: string
  source_name :: "string option"
  last_checked :: "nat option"
  subfolder_id :: "nat option"
  auto_download :: bool

record video =
  video_id :: string
  title :: "string option"
  channel_name :: "string option"
  upload_date :: "string option"
  video_source_id :: "nat option"
  downloaded :: bool
  download_path :: "string option"
  download_date :: "nat option"
  thumbnail_url :: "string option"
  duration :: "int option"
  file_deleted :: bool
  skip :: bool
  failed_download :: bool
  error_message :: "string option"

record setting =
  setting_pk :: nat
  setting_key :: string
  setting_value :: "string option"

text \<open>A file is its text, or for a media file its size in bytes.\<close>

datatype fdata = Text string | Binary nat

fun getsize :: "fdata \<Rightarrow> nat" where
  "getsize (Text s) = length s"
| "getsize (Binary n) = n"

type_synonym files = "string \<rightharpoonup> fdata"

text \<open>
  The state all components share: the tables, the files on disk, the two module globals
  of the credential cache, the log of the commands given to \<open>subprocess.run\<close>, the clock and
  the number of commits made so far.
\<close>

record world =
  settings :: "setting list"
  subfolders :: "subfolder list"
  sources :: "source list"
  videos :: "video list"
  files :: files
  GLOBAL_COOKIE_FILE :: "string option"
  COOKIE_TIMESTAMP :: nat
  tool_log :: "string list list"
  clock :: nat
  commits :: nat

text \<open>
  What \<open>subprocess.run\<close> can do: fail to start the tool at all (an \<open>OSError\<close> with its
  message), or run it to completion.
\<close>

record proc =
  returncode :: int
  stdout :: string
  stderr :: string

datatype outcome = NotInvocable string | Completed proc

text \<open>
  The collaborators outside the core. The tool is an oracle of the number of earlier
  invocations, the command and the files on disk; it may change the files. A write to or
  a removal of a file raises \<open>OSError\<close> where \<open>fs_fails\<close> holds; directories are not
  modelled and \<open>os.makedirs\<close> succeeds. The remaining fields are library functions and the
  network, whose results the properties below do not depend on.
\<close>

record env =
  tool :: "nat \<Rightarrow> string list \<Rightarrow> files \<Rightarrow> outcome \<times> files"
  loads :: "string \<Rightarrow> jdict option"
  fs_fails :: "string \<Rightarrow> bool"
  abspath :: "string \<Rightarrow> string"
  relpath :: "string \<Rightarrow> string option \<Rightarrow> string"
  url_quote :: "string \<Rightarrow> string"
  http_get :: "string \<Rightarrow> (nat \<times> fdata) option"
  render_nfo :: "video \<Rightarrow> jdict option \<Rightarrow> string option"
  render_plex :: "video \<Rightarrow> jdict option \<Rightarrow> string option"
  py_int :: "string \<Rightarrow> int option"

datatype error = OSError string | CalledProcessError int | JSONDecodeError
  | TypeError string | IntegrityError string | ValueError string | AttributeError string
  | HTTPException nat

fun str_of :: "error \<Rightarrow> string" where
  "str_of (OSError m) = m"
| "str_of (TypeError m) = m"
| "str_of (IntegrityError m) = m"
| "str_of (ValueError m) = m"
| "str_of (AttributeError m) = m"
| "str_of (CalledProcessError rc) = ''Command returned non-zero exit status''"
| "str_of JSONDecodeError = ''Expecting value''"
| "str_of (HTTPException n) = []"

definition commit :: "world \<Rightarrow> world" where
  "commit w = w\<lparr>commits := commits w + 1\<rparr>"

definition utcnow :: "world \<Rightarrow> nat \<times> world" where
  "utcnow w = (clock w, w\<lparr>clock := clock w + 1\<rparr>)"

definition run_tool :: "env \<Rightarrow> world \<Rightarrow> string list \<Rightarrow> outcome \<times> world" where
  "run_tool e w cmd =
     (let (out, fs) = tool e (length (tool_log w)) cmd (files w)
      in (out, w\<lparr>files := fs, tool_log := tool_log w @ [cmd]\<rparr>))"


section \<open>Settings and the credential cache\<close>

definition get_setting :: "world \<Rightarrow> string \<Rightarrow> string option" where
  "get_setting w k =
     (case find (\<lambda>s. setting_key s = k) (settings w) of
        None \<Rightarrow> None
      | Some s \<Rightarrow> setting_value s)"

text \<open>
  \<open>update_setting\<close> and \<open>clear_youtube_cookies\<close> of \<open>main.py\<close>, the only writers of the
  credential text. An existing row keeps its key and row id and gets the new value; a
  missing \<open>youtube_cookies\<close> row is created with the next row id of the table.
\<close>

definition update_setting :: "world \<Rightarrow> string \<Rightarrow> string \<Rightarrow> error + world" where
  "update_setting w k v =
     (case first_index (\<lambda>s. setting_key s = k) (settings w) of
        Some i \<Rightarrow>
          Inr (commit (w\<lparr>settings := (settings w)[i := (settings w ! i)\<lparr>setting_value := Some v\<rparr>]\<rparr>))
      | None \<Rightarrow>
          if k = ''youtube_cookies''
          then Inr (commit (w\<lparr>settings := settings w @
                 [\<lparr>setting_pk = Suc (fold max (map setting_pk (settings w)) 0),
                   setting_key = k, setting_value = Some v\<rparr>]\<rparr>))
          else Inl (HTTPException 404))"

definition clear_youtube_cookies :: "world \<Rightarrow> world" where
  "clear_youtube_cookies w =
     (case first_index (\<lambda>s. setting_key s = ''youtube_cookies'') (settings w) of
        Some i \<Rightarrow> commit (w\<lparr>settings := (settings w)[i := (settings w ! i)\<lparr>setting_value := Some []\<rparr>]\<rparr>)
      | None \<Rightarrow> w)"

definition cookie_file_path :: "env \<Rightarrow> string" where
  "cookie_file_path e =
     path_join (path_join (abspath e ''downloads'') ''.temp'') ''youtube_cookies.txt''"

text \<open>
  \<open>get_cookie_file\<close>. With no credential text it removes the cached file, if the global
  names one that exists, and returns none. Otherwise it compares the row id of the setting
  with \<open>COOKIE_TIMESTAMP\<close>, and writes the file when the global is unset, the file is
  missing or the row id is larger than the remembered one.
\<close>

definition get_cookie_file :: "env \<Rightarrow> world \<Rightarrow> string option \<times> world" where
  "get_cookie_file e w =
     (let youtube_cookies = get_setting w ''youtube_cookies'';
          blank = (case youtube_cookies of None \<Rightarrow> True | Some c \<Rightarrow> c = [] \<or> strip c = []);
          text = (case youtube_cookies of None \<Rightarrow> [] | Some c \<Rightarrow> c)
      in if blank
         then (case GLOBAL_COOKIE_FILE w of
                 Some p \<Rightarrow>
                   if p \<noteq> [] \<and> files w p \<noteq> None
                   then (if fs_fails e p then (None, w)
                         else (None, w\<lparr>files := (files w)(p := None), GLOBAL_COOKIE_FILE := None\<rparr>))
                   else (None, w)
               | None \<Rightarrow> (None, w))
         else
           let path = cookie_file_path e;
               row_id = (case find (\<lambda>s. setting_key s = ''youtube_cookies'') (settings w) of
                           Some s \<Rightarrow> setting_pk s
                         | None \<Rightarrow> 0);
               setting_updated = (row_id \<noteq> 0 \<and> row_id > COOKIE_TIMESTAMP w);
               w1 = (if setting_updated then w\<lparr>COOKIE_TIMESTAMP := row_id\<rparr> else w)
           in if \<not> truthy_opt (GLOBAL_COOKIE_FILE w1) \<or> files w1 path = None \<or> setting_updated
              then (if fs_fails e path then (None, w1)
                    else (Some path,
                          w1\<lparr>files := (files w1)(path \<mapsto> Text text),
                             GLOBAL_COOKIE_FILE := Some path\<rparr>))
              else (GLOBAL_COOKIE_FILE w1, w1))"


section \<open>The source resolver\<close>

text \<open>\<open>if cookie_file: cmd.extend(["--cookies", cookie_file])\<close>\<close>

definition cookie_args :: "string option \<Rightarrow> string list" where
  "cookie_args cookie_file =
     (case cookie_file of
        None \<Rightarrow> []
      | Some c \<Rightarrow> if c \<noteq> [] then [''--cookies'', c] else [])"

text \<open>
  \<open>get_video_info\<close> runs the tool with \<open>check=True\<close>, so a non-zero exit raises
  \<open>CalledProcessError\<close>, and parses its output. \<open>get_video_info_body\<close> is the body of the
  \<open>try\<close>; the two \<open>except\<close> clauses catch exactly \<open>CalledProcessError\<close> and
  \<open>JSONDecodeError\<close> (\<open>caught\<close>) and return none. Any other exception leaves the function.
\<close>

fun caught :: "error \<Rightarrow> bool" where
  "caught (CalledProcessError rc) = True"
| "caught JSONDecodeError = True"
| "caught err = False"

definition get_video_info_body :: "env \<Rightarrow> world \<Rightarrow> string \<Rightarrow> (error + jdict) \<times> world" where
  "get_video_info_body e w vid =
     (let (cookie_file, w1) = get_cookie_file e w;
          cmd = [''yt-dlp'', ''https://www.youtube.com/watch?v='' @ vid,
                 ''--dump-json'', ''--no-playlist''] @ cookie_args cookie_file;
          (result, w2) = run_tool e w1 cmd
      in case result of
           NotInvocable m \<Rightarrow> (Inl (OSError m), w2)
         | Completed p \<Rightarrow>
             if returncode p \<noteq> 0 then (Inl (CalledProcessError (returncode p)), w2)
             else (case loads e (stdout p) of
                     None \<Rightarrow> (Inl JSONDecodeError, w2)
                   | Some d \<Rightarrow> (Inr d, w2)))"

definition get_video_info :: "env \<Rightarrow> world \<Rightarrow> string \<Rightarrow> (error + jdict option) \<times> world" where
  "get_video_info e w vid =
     (case get_video_info_body e w vid of
        (Inr d, w') \<Rightarrow> (Inr (Some d), w')
      | (Inl err, w') \<Rightarrow> if caught err then (Inr None, w') else (Inl err, w'))"

text \<open>
  The merge of a listing entry into its detailed lookup: every key of the listing entry
  that the detailed lookup does not have is added to the detailed lookup, which becomes
  the descriptor.
\<close>

definition preserve_extra_fields :: "jdict \<Rightarrow> jdict \<Rightarrow> jdict" where
  "preserve_extra_fields video_data detailed_info =
     fold (\<lambda>(key, val) d. if \<not> dict_has d key then dict_set key val d else d)
          video_data detailed_info"

text \<open>
  The loop over the lines of a flat listing, common to \<open>get_channel_videos\<close> and
  \<open>get_playlist_videos\<close>, whose bodies differ in the address only.
\<close>

fun enrich_lines :: "env \<Rightarrow> string list \<Rightarrow> world \<Rightarrow> jdict list \<Rightarrow> (error + jdict list) \<times> world" where
  "enrich_lines e [] w vids = (Inr vids, w)"
| "enrich_lines e (line # rest) w vids =
     (if strip line = [] then enrich_lines e rest w vids
      else (case loads e line of
              None \<Rightarrow> (Inl JSONDecodeError, w)
            | Some video_data \<Rightarrow>
                if dict_has video_data ''id''
                then (case get_video_info e w (py_str (dict_get video_data ''id'' JNull)) of
                        (Inl err, w1) \<Rightarrow> (Inl err, w1)
                      | (Inr None, w1) \<Rightarrow> enrich_lines e rest w1 (vids @ [video_data])
                      | (Inr (Some detailed_info), w1) \<Rightarrow>
                          if detailed_info \<noteq> []
                          then enrich_lines e rest w1
                                 (vids @ [preserve_extra_fields video_data detailed_info])
                          else enrich_lines e rest w1 (vids @ [video_data]))
                else enrich_lines e rest w (vids @ [video_data])))"

definition flat_listing_body :: "env \<Rightarrow> world \<Rightarrow> string \<Rightarrow> (error + jdict list) \<times> world" where
  "flat_listing_body e w url =
     (let (cookie_file, w1) = get_cookie_file e w;
          cmd = [''yt-dlp'', url, ''--dump-json'', ''--flat-playlist''] @ cookie_args cookie_file;
          (result, w2) = run_tool e w1 cmd
      in case result of
           NotInvocable m \<Rightarrow> (Inl (OSError m), w2)
         | Completed p \<Rightarrow>
             if returncode p \<noteq> 0 then (Inl (CalledProcessError (returncode p)), w2)
             else enrich_lines e (splitlines (stdout p)) w2 [])"

definition flat_listing :: "env \<Rightarrow> world \<Rightarrow> string \<Rightarrow> (error + jdict list) \<times> world" where
  "flat_listing e w url =
     (case flat_listing_body e w url of
        (Inr vids, w') \<Rightarrow> (Inr vids, w')
      | (Inl err, w') \<Rightarrow> if caught err then (Inr [], w') else (Inl err, w'))"

definition channel_url :: "string \<Rightarrow> string" where
  "channel_url channel_id = ''https://www.youtube.com/channel/'' @ channel_id @ ''/videos''"

definition playlist_url :: "string \<Rightarrow> string" where
  "playlist_url playlist_id = ''https://www.youtube.com/playlist?list='' @ playlist_id"

definition get_channel_videos :: "env \<Rightarrow> world \<Rightarrow> string \<Rightarrow> (error + jdict list) \<times> world" where
  "get_channel_videos e w channel_id = flat_listing e w (channel_url channel_id)"

definition get_playlist_videos :: "env \<Rightarrow> world \<Rightarrow> string \<Rightarrow> (error + jdict list) \<times> world" where
  "get_playlist_videos e w playlist_id = flat_listing e w (playlist_url playlist_id)"

text \<open>
  For the statements below: the tool can always be started; and the outcome of the one
  invocation that a single lookup, respectively a flat listing, makes in a given state.
\<close>

definition invocable :: "env \<Rightarrow> bool" where
  "invocable e = (\<forall>n cmd fs. \<exists>p. fst (tool e n cmd fs) = Completed p)"

definition info_run :: "env \<Rightarrow> world \<Rightarrow> string \<Rightarrow> outcome" where
  "info_run e w vid =
     fst (run_tool e (snd (get_cookie_file e w))
            ([''yt-dlp'', ''https://www.youtube.com/watch?v='' @ vid, ''--dump-json'',
              ''--no-playlist''] @ cookie_args (fst (get_cookie_file e w))))"

definition listing_run :: "env \<Rightarrow> world \<Rightarrow> string \<Rightarrow> outcome" where
  "listing_run e w url =
     fst (run_tool e (snd (get_cookie_file e w))
            ([''yt-dlp'', url, ''--dump-json'', ''--flat-playlist'']
             @ cookie_args (fst (get_cookie_file e w))))"


section \<open>The source poller (\<open>refresh_sources\<close>)\<close>

text \<open>The value of a JSON field as stored in a nullable text column.\<close>

fun column :: "jval \<Rightarrow> string option" where
  "column JNull = None"
| "column (JStr s) = Some s"

text \<open>
  \<open>if upload_date and "-" in upload_date: upload_date = upload_date.replace("-", "")[:8]\<close>
\<close>

fun convert_upload_date :: "jval \<Rightarrow> string option" where
  "convert_upload_date JNull = None"
| "convert_upload_date (JStr s) =
     Some (if s \<noteq> [] \<and> CHR ''-'' \<in> set s then take 8 (filter (\<lambda>c. c \<noteq> CHR ''-'') s) else s)"

text \<open>The row that \<open>refresh_sources\<close> builds for a descriptor; the other columns take their defaults.\<close>

definition new_video :: "source \<Rightarrow> jdict \<Rightarrow> string \<Rightarrow> video" where
  "new_video src video_data vid =
     \<lparr>video_id = vid,
      title = column (dict_get video_data ''title'' (JStr ''Unknown'')),
      channel_name = column (dict_get video_data ''channel'' (JStr ''Unknown'')),
      upload_date = convert_upload_date (dict_get video_data ''upload_date'' (JStr [])),
      video_source_id = Some (source_pk src),
      downloaded = False, download_path = None, download_date = None,
      thumbnail_url = column (dict_get video_data ''thumbnail'' (JStr [])),
      duration = None, file_deleted = False,
      skip = (\<not> auto_download src),
      failed_download = False, error_message = None\<rparr>"

text \<open>\<open>video_data.get("id", "")\<close>\<close>

definition id_of :: "jdict \<Rightarrow> jval" where
  "id_of video_data = dict_get video_data ''id'' (JStr [])"

text \<open>
  The inner loop over the descriptors of one source. The query for an existing row sees
  the rows added earlier in the pass. A null id violates the \<open>NOT NULL\<close> constraint of the
  column when the session is next flushed, at a later query or at the commit; either way
  the pass is aborted before its commit, which the loop does here at once.
\<close>

fun add_new_videos :: "source \<Rightarrow> jdict list \<Rightarrow> video list \<Rightarrow> nat \<Rightarrow> error + (video list \<times> nat)" where
  "add_new_videos src [] vs new_videos_count = Inr (vs, new_videos_count)"
| "add_new_videos src (video_data # rest) vs new_videos_count =
     (case id_of video_data of
        JNull \<Rightarrow> Inl (IntegrityError ''NOT NULL constraint failed: videos.video_id'')
      | JStr vid \<Rightarrow>
          if find (\<lambda>v. video_id v = vid) vs \<noteq> None
          then add_new_videos src rest vs new_videos_count
          else add_new_videos src rest (vs @ [new_video src video_data vid])
                 (new_videos_count + 1))"

text \<open>
  The body of the outer loop for one source. A source of kind \<open>video\<close> is passed over by
  \<open>continue\<close>; a kind other than \<open>channel\<close> and \<open>playlist\<close> resolves to no descriptors. The
  result is the source with its new \<open>last_checked\<close> and the count of new videos so far.
\<close>

definition resolve_source :: "env \<Rightarrow> world \<Rightarrow> source \<Rightarrow> (error + jdict list) \<times> world" where
  "resolve_source e w src =
     (if source_type src = ''channel'' then get_channel_videos e w (source_id src)
      else if source_type src = ''playlist'' then get_playlist_videos e w (source_id src)
      else (Inr [], w))"

definition refresh_source :: "env \<Rightarrow> source \<Rightarrow> world \<Rightarrow> nat \<Rightarrow> (error + source \<times> nat) \<times> world" where
  "refresh_source e src w new_videos_count =
     (if source_type src = ''video'' then (Inr (src, new_videos_count), w)
      else
        (case resolve_source e w src of
           (Inl err, w1) \<Rightarrow> (Inl err, w1)
         | (Inr videos_info, w1) \<Rightarrow>
             (case add_new_videos src videos_info (videos w1) new_videos_count of
                Inl err \<Rightarrow> (Inl err, w1)
              | Inr (vs, n1) \<Rightarrow>
                  (let (now, w2) = utcnow (w1\<lparr>videos := vs\<rparr>)
                   in (Inr (src\<lparr>last_checked := Some now\<rparr>, n1), w2)))))"

fun refresh_loop :: "env \<Rightarrow> source list \<Rightarrow> world \<Rightarrow> nat \<Rightarrow> (error + (source list \<times> nat)) \<times> world" where
  "refresh_loop e [] w new_videos_count = (Inr ([], new_videos_count), w)"
| "refresh_loop e (src # rest) w new_videos_count =
     (case refresh_source e src w new_videos_count of
        (Inl err, w1) \<Rightarrow> (Inl err, w1)
      | (Inr (src', n1), w1) \<Rightarrow>
          (case refresh_loop e rest w1 n1 of
             (Inl err, w') \<Rightarrow> (Inl err, w')
           | (Inr (srcs, n), w') \<Rightarrow> (Inr (src' # srcs, n), w')))"

text \<open>
  \<open>refresh_sources\<close>: one pass and its single commit. When the pass is aborted by an
  exception nothing was committed, and the rows added so far are lost with the session.
\<close>

definition refresh_sources :: "env \<Rightarrow> world \<Rightarrow> (error + (nat \<times> nat)) \<times> world" where
  "refresh_sources e w =
     (case refresh_loop e (sources w) w 0 of
        (Inl err, w') \<Rightarrow> (Inl err, w'\<lparr>videos := videos w\<rparr>)
      | (Inr (srcs, new_videos_count), w') \<Rightarrow>
          (Inr (length (sources w), new_videos_count), commit (w'\<lparr>sources := srcs\<rparr>)))"


text \<open>Every object that parses has an \<open>id\<close> that is not null, or none at all.\<close>

definition ids_present :: "env \<Rightarrow> bool" where
  "ids_present e = (\<forall>s d. loads e s = Some d \<longrightarrow> id_of d \<noteq> JNull)"


section \<open>The library scanner\<close>

text \<open>One pass of the loop of \<open>scan_library\<close>, between reading the interval and sleeping.\<close>

definition file_missing :: "world \<Rightarrow> video \<Rightarrow> bool" where
  "file_missing w v =
     (case download_path v of
        None \<Rightarrow> True
      | Some p \<Rightarrow> p = [] \<or> files w p = None)"

definition scan_library_pass :: "world \<Rightarrow> nat \<times> world" where
  "scan_library_pass w =
     (let changed_count = length (filter (\<lambda>v. downloaded v \<and> file_missing w v) (videos w));
          vs = map (\<lambda>v. if downloaded v \<and> file_missing w v
                         then v\<lparr>downloaded := False, file_deleted := True, skip := True\<rparr>
                         else v) (videos w)
      in (changed_count, if changed_count > 0 then commit (w\<lparr>videos := vs\<rparr>) else w))"


section \<open>The queue processor's selection\<close>

text \<open>
  The two queries of \<open>process_download_queue\<close>; \<open>first()\<close> takes the first row in storage
  order.
\<close>

definition select_next :: "world \<Rightarrow> video option" where
  "select_next w =
     (let query = filter (\<lambda>v. downloaded v = False \<and> file_deleted v = False \<and> skip v = False
                               \<and> failed_download v = False) (videos w);
          auto_download_source_ids = map source_pk (filter (\<lambda>s. auto_download s = True) (sources w))
      in if auto_download_source_ids \<noteq> []
         then find (\<lambda>v. case video_source_id v of
                           None \<Rightarrow> False
                         | Some sid \<Rightarrow> sid \<in> set auto_download_source_ids) query
         else find (\<lambda>v. (case video_source_id v of
                            None \<Rightarrow> False
                          | Some sid \<Rightarrow> list_ex (\<lambda>s. source_pk s = sid \<and> source_type s = ''video'')
                                          (sources w))
                         \<and> downloaded v = False \<and> file_deleted v = False \<and> skip v = False
                         \<and> failed_download v = False) (videos w))"


section \<open>The download worker (\<open>download_video\<close>)\<close>

definition set_video :: "nat \<Rightarrow> video \<Rightarrow> world \<Rightarrow> world" where
  "set_video i v w = w\<lparr>videos := (videos w)[i := v]\<rparr>"

text \<open>
  The destination: the \<open>download_path\<close> setting, or the path of the subfolder of the
  video's source when there is one, then a folder and a file named after the sanitized
  title, or after the video id when that is empty. Joining a missing setting raises
  \<open>TypeError\<close>.
\<close>

definition output_location :: "world \<Rightarrow> video \<Rightarrow> error + (string \<times> string)" where
  "output_location w video =
     (let download_path0 = get_setting w ''download_path'';
          src = (case video_source_id video of
                   None \<Rightarrow> None
                 | Some sid \<Rightarrow> find (\<lambda>s. source_pk s = sid) (sources w));
          download_path1 =
            (case src of
               None \<Rightarrow> download_path0
             | Some s \<Rightarrow>
                 (case subfolder_id s of
                    None \<Rightarrow> download_path0
                  | Some fid \<Rightarrow>
                      if fid = 0 then download_path0
                      else (case find (\<lambda>f. subfolder_pk f = fid) (subfolders w) of
                              None \<Rightarrow> download_path0
                            | Some f \<Rightarrow> Some (subfolder_path f))));
          safe_title = sanitize (case title video of None \<Rightarrow> [] | Some t \<Rightarrow> t);
          video_folder_name = (if safe_title \<noteq> [] then safe_title else video_id video)
      in case download_path1 of
           None \<Rightarrow> Inl (TypeError ''expected str, bytes or os.PathLike object, not NoneType'')
         | Some dp \<Rightarrow>
             (let video_folder_path = path_join dp video_folder_name
              in Inr (video_folder_path,
                      path_join video_folder_path (video_folder_name @ ''.mp4''))))"

text \<open>
  The two invocations of the tool: the first with the preferred formats, and, when it
  exits with a non-zero code, a second with the format \<open>best\<close>. The result is that of the
  last invocation made.
\<close>

definition download_attempts :: "env \<Rightarrow> world \<Rightarrow> string \<Rightarrow> string \<Rightarrow> (error + proc) \<times> world" where
  "download_attempts e w vid output_file =
     (let (cookie_file, w1) = get_cookie_file e w;
          cmd = [''yt-dlp'', ''-f'', ''bestvideo[ext=mp4]+bestaudio[ext=m4a]/best[ext=mp4]/best'',
                 ''--merge-output-format'', ''mp4'', ''--no-check-certificate'',
                 ''--write-thumbnail''] @ cookie_args cookie_file @
                [''-o'', output_file, ''https://www.youtube.com/watch?v='' @ vid];
          (result, w2) = run_tool e w1 cmd
      in case result of
           NotInvocable m \<Rightarrow> (Inl (OSError m), w2)
         | Completed p \<Rightarrow>
             if returncode p \<noteq> 0
             then (let cmd2 = [''yt-dlp'', ''-f'', ''best'', ''--no-check-certificate'',
                               ''--write-thumbnail''] @ cookie_args cookie_file @
                              [''-o'', output_file, ''https://www.youtube.com/watch?v='' @ vid];
                       (result2, w3) = run_tool e w2 cmd2
                   in case result2 of
                        NotInvocable m \<Rightarrow> (Inl (OSError m), w3)
                      | Completed p2 \<Rightarrow> (Inr p2, w3))
             else (Inr p, w2))"

text \<open>
  The thumbnail: the first image beside the output file, or else a direct fetch of the
  address in the detailed lookup, whose failures are logged only.
\<close>

definition find_thumbnail :: "files \<Rightarrow> string \<Rightarrow> string option" where
  "find_thumbnail fs output_file =
     find (\<lambda>p. fs p \<noteq> None)
          (map (\<lambda>ext. splitext_root output_file @ ''.'' @ ext) [''jpg'', ''jpeg'', ''png'', ''webp''])"

definition set_thumbnail_url :: "env \<Rightarrow> nat \<Rightarrow> string \<Rightarrow> world \<Rightarrow> world" where
  "set_thumbnail_url e i p w =
     set_video i ((videos w ! i)\<lparr>thumbnail_url :=
        Some (''/downloads/'' @ url_quote e (relpath e p (get_setting w ''download_path'')))\<rparr>) w"

definition handle_thumbnail :: "env \<Rightarrow> world \<Rightarrow> nat \<Rightarrow> jdict option \<Rightarrow> string \<Rightarrow> string \<Rightarrow> world" where
  "handle_thumbnail e w i detailed_info video_folder_path output_file =
     (case find_thumbnail (files w) output_file of
        Some thumbnail_path \<Rightarrow> set_thumbnail_url e i thumbnail_path w
      | None \<Rightarrow>
          (case detailed_info of
             None \<Rightarrow> w
           | Some d \<Rightarrow>
               if d \<noteq> [] \<and> dict_has d ''thumbnail'' \<and> truthy (dict_get d ''thumbnail'' JNull)
               then (let thumb_path = path_join video_folder_path
                                        (splitext_root (basename output_file) @ ''.jpg'')
                     in case http_get e (py_str (dict_get d ''thumbnail'' JNull)) of
                          None \<Rightarrow> w
                        | Some (status_code, body) \<Rightarrow>
                            if status_code = 200
                            then (if fs_fails e thumb_path then w
                                  else set_thumbnail_url e i thumb_path
                                         (w\<lparr>files := (files w)(thumb_path \<mapsto> body)\<rparr>))
                            else w)
               else w))"

text \<open>
  The two side-car documents. Each function catches every exception it raises; the
  text of the document is left to the oracle, which answers none when building it fails.
\<close>

definition sidecar_title :: "video \<Rightarrow> string" where
  "sidecar_title v =
     sanitize (case title v of
                 None \<Rightarrow> video_id v
               | Some t \<Rightarrow> if t \<noteq> [] then t else video_id v)"

definition create_jellyfin_nfo :: "env \<Rightarrow> world \<Rightarrow> video \<Rightarrow> jdict option \<Rightarrow> string \<Rightarrow> world" where
  "create_jellyfin_nfo e w v detailed_info output_dir =
     (let nfo_path = path_join output_dir (sidecar_title v @ ''.nfo'')
      in case render_nfo e v detailed_info of
           None \<Rightarrow> w
         | Some xml \<Rightarrow>
             if fs_fails e nfo_path then w
             else w\<lparr>files := (files w)(nfo_path \<mapsto> Text xml)\<rparr>)"

definition create_plex_metadata :: "env \<Rightarrow> world \<Rightarrow> video \<Rightarrow> jdict option \<Rightarrow> string \<Rightarrow> world" where
  "create_plex_metadata e w v detailed_info output_dir =
     (let xml_path = path_join output_dir (sidecar_title v @ ''.xml'')
      in case render_plex e v detailed_info of
           None \<Rightarrow> w
         | Some xml \<Rightarrow>
             if fs_fails e xml_path then w
             else w\<lparr>files := (files w)(xml_path \<mapsto> Text xml)\<rparr>)"

text \<open>Recording a failure: the two assignments and the commit.\<close>

definition mark_failed :: "nat \<Rightarrow> string \<Rightarrow> world \<Rightarrow> world" where
  "mark_failed i msg w =
     commit (set_video i ((videos w ! i)\<lparr>failed_download := True, error_message := Some msg\<rparr>) w)"

text \<open>\<open>error_message[:500] if error_message else "Unknown error"\<close>\<close>

definition truncated :: "string \<Rightarrow> string" where
  "truncated error_text = (if error_text \<noteq> [] then take 500 error_text else ''Unknown error'')"

definition file_too_small :: "files \<Rightarrow> string \<Rightarrow> bool" where
  "file_too_small fs output_file =
     (case fs output_file of
        None \<Rightarrow> True
      | Some f \<Rightarrow> getsize f < 10000)"

text \<open>
  The body of the \<open>try\<close> of \<open>download_video\<close>, for the row at index \<open>i\<close>. An exception
  can come from the lookup and from the attempts; after the check of the output file
  every step catches its own exceptions.
\<close>

definition try_download :: "env \<Rightarrow> world \<Rightarrow> nat \<Rightarrow> string \<Rightarrow> string \<Rightarrow> string \<Rightarrow> (error + bool \<times> string) \<times> world" where
  "try_download e w i vid video_folder_path output_file =
     (case get_video_info e w vid of
        (Inl err, w1) \<Rightarrow> (Inl err, w1)
      | (Inr detailed_info, w1) \<Rightarrow>
          (case download_attempts e w1 vid output_file of
             (Inl err, w2) \<Rightarrow> (Inl err, w2)
           | (Inr result, w2) \<Rightarrow>
               if returncode result \<noteq> 0
               then (let error_text = strip (stderr result)
                     in (Inr (False, ''yt-dlp error: '' @ error_text),
                         mark_failed i (truncated error_text) w2))
               else if file_too_small (files w2) output_file
               then (Inr (False, ''Download failed or file too small''),
                     mark_failed i ''Download failed or file too small'' w2)
               else (let w3 = handle_thumbnail e w2 i detailed_info video_folder_path output_file;
                         w4 = create_jellyfin_nfo e w3 (videos w3 ! i) detailed_info video_folder_path;
                         w5 = create_plex_metadata e w4 (videos w4 ! i) detailed_info video_folder_path;
                         (now, w6) = utcnow w5
                     in (Inr (True, ''Downloaded successfully: '' @ output_file),
                         commit (set_video i ((videos w6 ! i)\<lparr>downloaded := True,
                                   download_date := Some now, download_path := Some output_file,
                                   failed_download := False, error_message := None\<rparr>) w6)))))"

text \<open>
  The steps of \<open>download_video\<close> before the \<open>try\<close>: the reset of an earlier failure,
  with its commit, and the removal of a file already at the output path.
\<close>

definition reset_failed :: "nat \<Rightarrow> world \<Rightarrow> world" where
  "reset_failed i w =
     (if failed_download (videos w ! i)
      then commit (set_video i ((videos w ! i)\<lparr>failed_download := False,
                     error_message := None\<rparr>) w)
      else w)"

definition remove_existing :: "env \<Rightarrow> string \<Rightarrow> world \<Rightarrow> error + world" where
  "remove_existing e output_file w =
     (if files w output_file \<noteq> None
      then (if fs_fails e output_file then Inl (OSError ''Permission denied'')
            else Inr (w\<lparr>files := (files w)(output_file := None)\<rparr>))
      else Inr w)"

text \<open>
  \<open>download_video\<close>. The steps before the \<open>try\<close> can raise, which leaves the function; an
  exception inside the \<open>try\<close> is recorded on the row and reported as a failure.
\<close>

definition download_video :: "env \<Rightarrow> world \<Rightarrow> string \<Rightarrow> (error + bool \<times> string) \<times> world" where
  "download_video e w vid =
     (case first_index (\<lambda>v. video_id v = vid) (videos w) of
        None \<Rightarrow> (Inr (False, ''Video not found in database''), w)
      | Some i \<Rightarrow>
          if downloaded (videos w ! i) then (Inr (True, ''Video already downloaded''), w)
          else
            (let w1 = reset_failed i w
             in case output_location w1 (videos w1 ! i) of
                  Inl err \<Rightarrow> (Inl err, w1)
                | Inr (video_folder_path, output_file) \<Rightarrow>
                    (case remove_existing e output_file w1 of
                       Inl err \<Rightarrow> (Inl err, w1)
                     | Inr w2 \<Rightarrow>
                         (case try_download e w2 i vid video_folder_path output_file of
                            (Inl err, w3) \<Rightarrow>
                              (Inr (False, ''Exception: '' @ str_of err),
                               mark_failed i (truncated (str_of err)) w3)
                          | (Inr r, w3) \<Rightarrow> (Inr r, w3)))))"


text \<open>
  For the statements below. A download command is one that starts with \<open>yt-dlp -f\<close>,
  which both attempts do and the lookup does not. In the first kind of environment every
  download command exits with a non-zero code and the error text \<open>err\<close>; in the second
  every download command exits with code 0 and leaves no file, or too small a file, at
  \<open>output_file\<close>.
\<close>

definition is_download :: "string list \<Rightarrow> bool" where
  "is_download cmd = (take 2 cmd = [''yt-dlp'', ''-f''])"

definition downloads_exit_nonzero :: "env \<Rightarrow> string \<Rightarrow> bool" where
  "downloads_exit_nonzero e err =
     (\<forall>n cmd fs. is_download cmd \<longrightarrow>
        (\<exists>p. fst (tool e n cmd fs) = Completed p \<and> returncode p \<noteq> 0 \<and> stderr p = err))"

definition downloads_leave_small :: "env \<Rightarrow> string \<Rightarrow> bool" where
  "downloads_leave_small e output_file =
     (\<forall>n cmd fs. is_download cmd \<longrightarrow>
        (\<exists>p. fst (tool e n cmd fs) = Completed p \<and> returncode p = 0
             \<and> file_too_small (snd (tool e n cmd fs)) output_file))"

text \<open>
  In the third kind every download command exits with code 0 and leaves a file of at
  least 10000 bytes at \<open>output_file\<close>.
\<close>

definition downloads_succeed :: "env \<Rightarrow> string \<Rightarrow> bool" where
  "downloads_succeed e output_file =
     (\<forall>n cmd fs. is_download cmd \<longrightarrow>
        (\<exists>p. fst (tool e n cmd fs) = Completed p \<and> returncode p = 0
             \<and> \<not> file_too_small (snd (tool e n cmd fs)) output_file))"


section \<open>The poller loop (\<open>background_checker\<close> of \<open>main.py\<close>)\<close>

text \<open>
  What the loop does to time is the list of its calls of \<open>time.sleep\<close>. One iteration
  reads the interval, refreshes the sources and sleeps; any exception is answered by a
  sleep of 60 seconds. The loop is \<open>while True\<close>; \<open>background_checker e n\<close> is its first
  \<open>n\<close> iterations.
\<close>

datatype action = Sleep int

definition checker_iteration_body :: "env \<Rightarrow> world \<Rightarrow> (error + action list) \<times> world" where
  "checker_iteration_body e w =
     (case get_setting w ''check_interval'' of
        None \<Rightarrow> (Inl (TypeError ''int() argument must be a string or a number''), w)
      | Some s \<Rightarrow>
          (case py_int e s of
             None \<Rightarrow> (Inl (ValueError ''invalid literal for int()''), w)
           | Some check_interval \<Rightarrow>
               (case get_setting w ''auto_download'' of
                  None \<Rightarrow> (Inl (AttributeError ''NoneType has no attribute lower''), w)
                | Some a \<Rightarrow>
                    (case refresh_sources e w of
                       (Inl err, w1) \<Rightarrow> (Inl err, w1)
                     | (Inr counts, w1) \<Rightarrow>
                         if check_interval < 0
                         then (Inl (ValueError ''sleep length must be non-negative''), w1)
                         else (Inr [Sleep check_interval], w1)))))"

definition checker_iteration :: "env \<Rightarrow> world \<Rightarrow> action list \<times> world" where
  "checker_iteration e w =
     (case checker_iteration_body e w of
        (Inl err, w1) \<Rightarrow> ([Sleep 60], w1)
      | (Inr acts, w1) \<Rightarrow> (acts, w1))"

fun background_checker :: "env \<Rightarrow> nat \<Rightarrow> world \<Rightarrow> action list \<times> world" where
  "background_checker e 0 w = ([], w)"
| "background_checker e (Suc n) w =
     (let (acts, w1) = checker_iteration e w;
          (more, w2) = background_checker e n w1
      in (acts @ more, w2))"


section \<open>Concrete environments and states\<close>

text \<open>
  A quiet environment: the tool starts, prints nothing and exits with code 0; nothing
  parses; every file operation succeeds.
\<close>

definition quiet_proc :: proc where
  "quiet_proc = \<lparr>returncode = 0, stdout = [], stderr = []\<rparr>"

definition env0 :: env where
  "env0 = \<lparr>tool = (\<lambda>n cmd fs. (Completed quiet_proc, fs)),
           loads = (\<lambda>s. None),
           fs_fails = (\<lambda>p. False),
           abspath = (\<lambda>p. ''/app/'' @ p),
           relpath = (\<lambda>p start. p),
           url_quote = (\<lambda>p. p),
           http_get = (\<lambda>u. None),
           render_nfo = (\<lambda>v d. None),
           render_plex = (\<lambda>v d. None),
           py_int = (\<lambda>s. if s = ''3600'' then Some 3600 else None)\<rparr>"

definition settings0 :: "setting list" where
  "settings0 =
     [\<lparr>setting_pk = 1, setting_key = ''download_path'', setting_value = Some ''/data''\<rparr>,
      \<lparr>setting_pk = 3, setting_key = ''check_interval'', setting_value = Some ''3600''\<rparr>,
      \<lparr>setting_pk = 4, setting_key = ''auto_download'', setting_value = Some ''true''\<rparr>]"

definition w0 :: world where
  "w0 = \<lparr>settings = settings0, subfolders = [], sources = [], videos = [],
          files = Map.empty, GLOBAL_COOKIE_FILE = None, COOKIE_TIMESTAMP = 0,
          tool_log = [], clock = 100, commits = 0\<rparr>"

text \<open>The state of the store with a credential text in the settings.\<close>

definition w_cookies :: world where
  "w_cookies = w0\<lparr>settings := settings0 @
     [\<lparr>setting_pk = 7, setting_key = ''youtube_cookies'', setting_value = Some ''cookie-A''\<rparr>]\<rparr>"




text \<open>An environment without the tool: starting it fails.\<close>

definition env_no_tool :: env where
  "env_no_tool = env0
     \<lparr>tool := (\<lambda>n cmd fs. (NotInvocable ''No such file or directory: yt-dlp'', fs))\<rparr>"


text \<open>An environment in which the tool starts and exits with code 1 and an error text.\<close>

definition failed_proc :: proc where
  "failed_proc = \<lparr>returncode = 1, stdout = [], stderr = ''ERROR: Video unavailable''\<rparr>"

definition env_failing :: env where
  "env_failing = env0\<lparr>tool := (\<lambda>n cmd fs. (Completed failed_proc, fs))\<rparr>"

text \<open>Rows for the queue: a channel, a single-item source, and videos of both.\<close>

definition src_channel :: source where
  "src_channel = \<lparr>source_pk = 1, source_type = ''channel'', source_id = ''UC1'',
      source_name = Some ''A channel'', last_checked = None, subfolder_id = None,
      auto_download = True\<rparr>"

definition src_single :: source where
  "src_single = \<lparr>source_pk = 2, source_type = ''video'', source_id = ''v9'',
      source_name = Some ''A video'', last_checked = None, subfolder_id = None,
      auto_download = False\<rparr>"

definition video0 :: video where
  "video0 = \<lparr>video_id = ''v1'', title = Some ''First: the video'', channel_name = Some ''A channel'',
      upload_date = Some ''20240101'', video_source_id = Some 1, downloaded = False,
      download_path = None, download_date = None, thumbnail_url = None, duration = None,
      file_deleted = False, skip = False, failed_download = False, error_message = None\<rparr>"

definition w_queue :: world where
  "w_queue = w0\<lparr>sources := [src_channel, src_single],
      videos := [video0\<lparr>video_id := ''v0'', skip := True\<rparr>,
                 video0\<lparr>video_id := ''v9'', video_source_id := Some 2\<rparr>,
                 video0]\<rparr>"

definition w_standalone :: world where
  "w_standalone = w0\<lparr>sources := [src_channel\<lparr>auto_download := False\<rparr>, src_single],
      videos := [video0,
                 video0\<lparr>video_id := ''v8'', video_source_id := Some 2, failed_download := True\<rparr>,
                 video0\<lparr>video_id := ''v9'', video_source_id := Some 2\<rparr>]\<rparr>"

text \<open>A store with the one video \<open>v1\<close>, not yet downloaded.\<close>

definition w_pending :: world where
  "w_pending = w0\<lparr>sources := [src_channel], videos := [video0]\<rparr>"

text \<open>An environment in which the tool exits with code 1 and prints no error text.\<close>

definition env_silent :: env where
  "env_silent = env0\<lparr>tool := (\<lambda>n cmd fs. (Completed (quiet_proc\<lparr>returncode := 1\<rparr>), fs))\<rparr>"

text \<open>
  The output file of \<open>v1\<close>; an environment in which a download command exits with code
  0 and leaves 100 bytes there; and one in which it leaves 20000 bytes there.
\<close>

definition out0 :: string where
  "out0 = ''/data/First_ the video/First_ the video.mp4''"

definition env_small :: env where
  "env_small = env0\<lparr>tool := (\<lambda>n cmd fs. (Completed quiet_proc, fs(out0 \<mapsto> Binary 100)))\<rparr>"

definition env_ok :: env where
  "env_ok = env0\<lparr>tool := (\<lambda>n cmd fs.
     (Completed quiet_proc, if is_download cmd then fs(out0 \<mapsto> Binary 20000) else fs))\<rparr>"

text \<open>A store in which the video \<open>v1\<close> is recorded as downloaded.\<close>

definition w_done :: world where
  "w_done = w0\<lparr>sources := [src_channel],
      videos := [video0\<lparr>downloaded := True, download_path := Some out0,
                         download_date := Some 50\<rparr>],
      files := [out0 \<mapsto> Binary 20000]\<rparr>"

text \<open>
  A store with three sources and no videos: a channel with automatic download, a single
  video, and a playlist without automatic download.
\<close>

definition src_playlist :: source where
  "src_playlist = \<lparr>source_pk = 3, source_type = ''playlist'', source_id = ''PL1'',
      source_name = Some ''Playlist PL1'', last_checked = Some 7, subfolder_id = None,
      auto_download = False\<rparr>"

definition w_sources :: world where
  "w_sources = w0\<lparr>sources := [src_channel, src_single, src_playlist]\<rparr>"

text \<open>The same store after the file was removed from disk behind the application's back.\<close>

definition w_lost :: world where
  "w_lost = w_done\<lparr>files := Map.empty\<rparr>"


section \<open>Facts about the concrete inputs\<close>

lemma env0_simps:
  "tool env0 n cmd fs = (Completed quiet_proc, fs)"
  "loads env0 s = None"
  "fs_fails env0 p = False"
  "abspath env0 p = ''/app/'' @ p"
  "http_get env0 u = None"
  "render_nfo env0 v d = None"
  "render_plex env0 v d = None"
  by (simp_all add: env0_def)


lemma env_failing_simps:
  "tool env_failing n cmd fs = (Completed failed_proc, fs)"
  "loads env_failing s = None"
  "fs_fails env_failing p = False"
  by (simp_all add: env_failing_def env0_def)

lemma cookie_file_path_env0:
  "cookie_file_path env0 = ''/app/downloads/.temp/youtube_cookies.txt''"
  by (simp add: cookie_file_path_def env0_simps path_join_def)

lemma strip_cookie_text:
  "strip ''cookie-A'' = ''cookie-A''" "strip ''cookie-B'' = ''cookie-B''"
  by (simp_all add: strip_def is_space_def)

lemma no_cookies:
  "settings w = settings0 \<Longrightarrow> GLOBAL_COOKIE_FILE w = None \<Longrightarrow> get_cookie_file e w = (None, w)"
  by (simp add: get_cookie_file_def get_setting_def settings0_def)



section \<open>The credential cache\<close>

text \<open>
  What does hold of the cache: the first call after a credential text was set, with no
  file cached, writes that text; and once the text is cleared, the next call removes the
  cached file and returns none.
\<close>

lemma get_cookie_file_first_write:
  assumes "get_setting w ''youtube_cookies'' = Some c" and "strip c \<noteq> []"
      and "GLOBAL_COOKIE_FILE w = None" and "\<not> fs_fails e (cookie_file_path e)"
  shows "fst (get_cookie_file e w) = Some (cookie_file_path e)
       \<and> files (snd (get_cookie_file e w)) (cookie_file_path e) = Some (Text c)"
proof -
  from assms(2) have "c \<noteq> []" by (auto simp: strip_def)
  with assms show ?thesis
    by (simp add: get_cookie_file_def Let_def truthy_opt_def)
qed

lemma find_None_first_index: "find P xs = None \<Longrightarrow> first_index P xs = None"
  by (induction xs) (auto split: if_splits)

lemma get_setting_cleared:
  "get_setting (clear_youtube_cookies w) ''youtube_cookies'' = None
   \<or> get_setting (clear_youtube_cookies w) ''youtube_cookies'' = Some []"
proof -
  have "find P xs = None \<or> (\<exists>i. first_index P xs = Some i \<and> i < length xs \<and> P (xs ! i)
          \<and> (\<forall>j<i. \<not> P (xs ! j)))" for P :: "setting \<Rightarrow> bool" and xs
  proof (induction xs)
    case Nil
    then show ?case by simp
  next
    case (Cons x xs)
    show ?case
    proof (cases "P x")
      case True
      then show ?thesis by simp
    next
      case False
      with Cons show ?thesis
        by (auto simp: less_Suc_eq_0_disj split: option.splits)
    qed
  qed
  note fi = this[of "\<lambda>s. setting_key s = ''youtube_cookies''" "settings w"]
  have upd: "i < length xs \<Longrightarrow> P (xs ! i) \<Longrightarrow> (\<forall>j<i. \<not> P (xs ! j)) \<Longrightarrow> P y \<Longrightarrow>
             find P (xs[i := y]) = Some y" for P :: "setting \<Rightarrow> bool" and xs i y
  proof (induction xs arbitrary: i)
    case Nil
    then show ?case by simp
  next
    case (Cons x xs)
    show ?case
    proof (cases i)
      case 0
      with Cons.prems show ?thesis by simp
    next
      case (Suc k)
      with Cons.prems have "\<not> P x" by auto
      moreover have "\<forall>j<k. \<not> P (xs ! j)"
      proof (intro allI impI)
        fix j assume "j < k"
        then have "Suc j < i" using Suc by simp
        from Cons.prems(3)[rule_format, OF this] show "\<not> P (xs ! j)" by simp
      qed
      then have "find P (xs[k := y]) = Some y"
        using Cons.IH[of k] Cons.prems Suc by auto
      ultimately show ?thesis using Suc by simp
    qed
  qed
  from fi show ?thesis
  proof
    assume n: "find (\<lambda>s. setting_key s = ''youtube_cookies'') (settings w) = None"
    then have "first_index (\<lambda>s. setting_key s = ''youtube_cookies'') (settings w) = None"
      by (rule find_None_first_index)
    with n show ?thesis by (simp add: clear_youtube_cookies_def get_setting_def)
  next
    assume "\<exists>i. first_index (\<lambda>s. setting_key s = ''youtube_cookies'') (settings w) = Some i
        \<and> i < length (settings w) \<and> setting_key (settings w ! i) = ''youtube_cookies''
        \<and> (\<forall>j<i. \<not> setting_key (settings w ! j) = ''youtube_cookies'')"
    then obtain i where i: "first_index (\<lambda>s. setting_key s = ''youtube_cookies'') (settings w) = Some i"
        "i < length (settings w)" "setting_key (settings w ! i) = ''youtube_cookies''"
        "\<forall>j<i. \<not> setting_key (settings w ! j) = ''youtube_cookies''" by blast
    from upd[of i "settings w" "\<lambda>s. setting_key s = ''youtube_cookies''"
               "(settings w ! i)\<lparr>setting_value := Some []\<rparr>"] i
    show ?thesis by (simp add: clear_youtube_cookies_def get_setting_def commit_def)
  qed
qed

lemma get_cookie_file_cleared:
  assumes "get_setting w ''youtube_cookies'' = None \<or> get_setting w ''youtube_cookies'' = Some []"
      and "GLOBAL_COOKIE_FILE w = Some p" and "p \<noteq> []" and "files w p \<noteq> None"
      and "\<not> fs_fails e p"
  shows "get_cookie_file e w = (None, w\<lparr>files := (files w)(p := None), GLOBAL_COOKIE_FILE := None\<rparr>)"
  using assms by (auto simp: get_cookie_file_def Let_def)


text \<open>
  C2. The cache is to serve the credential text that was last written. Evaluated on the
  store \<open>w_cookies\<close>: the first call writes the file with the text \<open>cookie-A\<close>; the setting is
  then updated to \<open>cookie-B\<close>, which keeps the row and its row id; the next call returns the
  same path, and the file still holds \<open>cookie-A\<close>.
\<close>

theorem get_cookie_file_serves_stale_text:
  "(case get_cookie_file env0 w_cookies of (p1, w1) \<Rightarrow>
     (case update_setting w1 ''youtube_cookies'' ''cookie-B'' of
        Inl err \<Rightarrow> False
      | Inr w2 \<Rightarrow>
         (case get_cookie_file env0 w2 of (p2, w3) \<Rightarrow>
            p1 = Some ''/app/downloads/.temp/youtube_cookies.txt''
          \<and> files w1 ''/app/downloads/.temp/youtube_cookies.txt'' = Some (Text ''cookie-A'')
          \<and> get_setting w2 ''youtube_cookies'' = Some ''cookie-B''
          \<and> p2 = Some ''/app/downloads/.temp/youtube_cookies.txt''
          \<and> files w3 ''/app/downloads/.temp/youtube_cookies.txt'' = Some (Text ''cookie-A''))))"
  by (simp add: get_cookie_file_def update_setting_def get_setting_def w_cookies_def w0_def
      settings0_def cookie_file_path_env0 strip_cookie_text truthy_opt_def commit_def Let_def
      env0_simps)

theorem get_cookie_file_serves_stale_text_witness:
  "\<exists>p1 w1 w2 p2 w3.
     get_cookie_file env0 w_cookies = (p1, w1)
   \<and> update_setting w1 ''youtube_cookies'' ''cookie-B'' = Inr w2
   \<and> get_cookie_file env0 w2 = (p2, w3)
   \<and> p2 = Some ''/app/downloads/.temp/youtube_cookies.txt''
   \<and> get_setting w2 ''youtube_cookies'' = Some ''cookie-B''
   \<and> files w3 ''/app/downloads/.temp/youtube_cookies.txt'' = Some (Text ''cookie-A'')"
proof -
  obtain p1 w1 where a: "get_cookie_file env0 w_cookies = (p1, w1)"
    by (cases "get_cookie_file env0 w_cookies")
  from get_cookie_file_serves_stale_text a
  obtain w2 where b: "update_setting w1 ''youtube_cookies'' ''cookie-B'' = Inr w2"
    by (cases "update_setting w1 ''youtube_cookies'' ''cookie-B''") auto
  obtain p2 w3 where c: "get_cookie_file env0 w2 = (p2, w3)"
    by (cases "get_cookie_file env0 w2")
  from get_cookie_file_serves_stale_text a b c show ?thesis by simp
qed


section \<open>The source resolver\<close>

lemma map_of_dict_set: "map_of (dict_set k v d) = (map_of d)(k \<mapsto> v)"
  by (induction d) (auto simp: fun_eq_iff)

text \<open>The result of a single lookup, read off the outcome of its one invocation.\<close>

lemma get_video_info_char:
  "fst (get_video_info e w vid) =
     (case info_run e w vid of
        NotInvocable m \<Rightarrow> Inl (OSError m)
      | Completed p \<Rightarrow>
          if returncode p \<noteq> 0 then Inr None
          else (case loads e (stdout p) of None \<Rightarrow> Inr None | Some d \<Rightarrow> Inr (Some d)))"
  by (simp add: get_video_info_def get_video_info_body_def info_run_def split_def Let_def
      split: outcome.splits option.splits)

lemma flat_listing_char:
  "fst (flat_listing e w url) =
     (case listing_run e w url of
        NotInvocable m \<Rightarrow> Inl (OSError m)
      | Completed p \<Rightarrow>
          if returncode p \<noteq> 0 then Inr []
          else (case fst (enrich_lines e (splitlines (stdout p))
                   (snd (run_tool e (snd (get_cookie_file e w))
                      ([''yt-dlp'', url, ''--dump-json'', ''--flat-playlist'']
                       @ cookie_args (fst (get_cookie_file e w))))) []) of
                  Inl err \<Rightarrow> if caught err then Inr [] else Inl err
                | Inr vs \<Rightarrow> Inr vs))"
  by (simp add: flat_listing_def flat_listing_body_def listing_run_def split_def Let_def
      split: outcome.splits option.splits sum.splits)

lemma invocable_run: "invocable e \<Longrightarrow> \<exists>p. fst (run_tool e w cmd) = Completed p"
  by (simp add: invocable_def run_tool_def split_def Let_def)

lemma get_video_info_total:
  assumes "invocable e"
  shows "\<exists>r w'. get_video_info e w vid = (Inr r, w')"
proof -
  from invocable_run[OF assms] obtain p where "info_run e w vid = Completed p"
    unfolding info_run_def by blast
  then have "\<exists>r. fst (get_video_info e w vid) = Inr r"
    by (simp add: get_video_info_char split: option.splits)
  then show ?thesis by (cases "get_video_info e w vid") auto
qed

text \<open>
  When the tool can be started, the loop over the lines stops with no exception other
  than the parse error of a line, and it does stop with it when some line that is not
  blank does not parse.
\<close>

lemma enrich_lines_error:
  assumes "invocable e"
  shows "enrich_lines e lines w vids = (Inl err, w') \<Longrightarrow> err = JSONDecodeError"
proof (induction lines arbitrary: w vids)
  case Nil
  then show ?case by simp
next
  case (Cons line rest)
  show ?case
  proof (cases "strip line = []")
    case True
    with Cons show ?thesis by simp
  next
    case False
    show ?thesis
    proof (cases "loads e line")
      case None
      with False Cons.prems show ?thesis by simp
    next
      case (Some video_data)
      show ?thesis
      proof (cases "dict_has video_data ''id''")
        case True
        from get_video_info_total[OF assms] obtain r w1 where
          r: "get_video_info e w (py_str (dict_get video_data ''id'' JNull)) = (Inr r, w1)"
          by blast
        with False Some True Cons.prems Cons.IH show ?thesis
          by (cases r) (auto split: if_splits)
      next
        case no_id: False
        with False Some Cons.prems Cons.IH show ?thesis by simp
      qed
    qed
  qed
qed


lemma flat_listing_total:
  assumes "invocable e"
  shows "\<exists>vs w'. flat_listing e w url = (Inr vs, w')"
proof -
  from invocable_run[OF assms] obtain p where p: "listing_run e w url = Completed p"
    unfolding listing_run_def by blast
  have "\<exists>vs. fst (flat_listing e w url) = Inr vs"
  proof (cases "returncode p \<noteq> 0")
    case True
    with p show ?thesis by (simp add: flat_listing_char)
  next
    case False
    show ?thesis
      using p False enrich_lines_error[OF assms]
      apply (simp add: flat_listing_char split: sum.splits)
      by (metis caught.simps(2) prod.collapse)
  qed
  then show ?thesis by (cases "flat_listing e w url") auto
qed




text \<open>The merge, key by key.\<close>

lemma map_of_preserve_extra_fields:
  "map_of (preserve_extra_fields video_data detailed_info) k =
     (case map_of detailed_info k of
        Some v \<Rightarrow> Some v
      | None \<Rightarrow> map_of video_data k)"
  unfolding preserve_extra_fields_def
proof (induction video_data arbitrary: detailed_info)
  case Nil
  then show ?case by (simp split: option.splits)
next
  case (Cons a video_data)
  obtain k1 v1 where a: "a = (k1, v1)" by (cases a)
  show ?case
  proof (cases "dict_has detailed_info k1")
    case True
    then have "map_of detailed_info k1 \<noteq> None" by (simp add: dict_has_def)
    with True show ?thesis
      by (auto simp: a Cons.IH split: option.splits)
  next
    case False
    then have "map_of detailed_info k1 = None" by (simp add: dict_has_def)
    with False show ?thesis
      by (auto simp: a Cons.IH map_of_dict_set split: option.splits)
  qed
qed








section \<open>The queue processor's selection\<close>

lemma first_index_find:
  "find P xs = Some v \<Longrightarrow> \<exists>i. first_index P xs = Some i \<and> i < length xs \<and> xs ! i = v"
  by (induction xs) (auto split: if_splits)

text \<open>
  C6. Whatever the selection returns, in the branch for sources with automatic download
  and in the branch for single-item sources, is a row of the store with all four flags
  false.
\<close>

theorem select_next_eligible:
  assumes "select_next w = Some v"
  shows "v \<in> set (videos w) \<and> downloaded v = False \<and> file_deleted v = False
         \<and> skip v = False \<and> failed_download v = False"
  using assms
  by (auto simp: select_next_def Let_def find_Some_iff split: if_splits dest: nth_mem)

theorem select_next_eligible_witness:
  "select_next w_queue = Some video0
   \<and> downloaded video0 = False \<and> file_deleted video0 = False
   \<and> skip video0 = False \<and> failed_download video0 = False
   \<and> select_next w_standalone = Some (video0\<lparr>video_id := ''v9'', video_source_id := Some 2\<rparr>)
   \<and> skip (video0\<lparr>video_id := ''v9'', video_source_id := Some 2\<rparr>) = False
   \<and> failed_download (video0\<lparr>video_id := ''v9'', video_source_id := Some 2\<rparr>) = False"
proof -
  have a: "select_next w_queue = Some video0"
    by (simp add: select_next_def w_queue_def w0_def src_channel_def src_single_def video0_def)
  have b: "select_next w_standalone = Some (video0\<lparr>video_id := ''v9'', video_source_id := Some 2\<rparr>)"
    by (simp add: select_next_def w_standalone_def w0_def src_channel_def src_single_def video0_def)
  from select_next_eligible[OF a] select_next_eligible[OF b] a b show ?thesis by simp
qed


section \<open>The download worker\<close>

text \<open>What the steps of the worker leave unchanged.\<close>

lemma get_cookie_file_frame:
  "videos (snd (get_cookie_file e w)) = videos w"
  "tool_log (snd (get_cookie_file e w)) = tool_log w"
  "sources (snd (get_cookie_file e w)) = sources w"
  "settings (snd (get_cookie_file e w)) = settings w"
  "subfolders (snd (get_cookie_file e w)) = subfolders w"
  "commits (snd (get_cookie_file e w)) = commits w"
  "clock (snd (get_cookie_file e w)) = clock w"
  by (simp_all add: get_cookie_file_def Let_def split: option.splits)

lemma run_tool_frame:
  "videos (snd (run_tool e w cmd)) = videos w"
  "tool_log (snd (run_tool e w cmd)) = tool_log w @ [cmd]"
  "sources (snd (run_tool e w cmd)) = sources w"
  "settings (snd (run_tool e w cmd)) = settings w"
  "subfolders (snd (run_tool e w cmd)) = subfolders w"
  "commits (snd (run_tool e w cmd)) = commits w"
  "clock (snd (run_tool e w cmd)) = clock w"
  by (simp_all add: run_tool_def split_def Let_def)

lemma get_video_info_frame:
  "videos (snd (get_video_info e w vid)) = videos w"
  "sources (snd (get_video_info e w vid)) = sources w"
  "settings (snd (get_video_info e w vid)) = settings w"
  "subfolders (snd (get_video_info e w vid)) = subfolders w"
  "commits (snd (get_video_info e w vid)) = commits w"
  "clock (snd (get_video_info e w vid)) = clock w"
  by (simp_all add: get_video_info_def get_video_info_body_def split_def Let_def
        get_cookie_file_frame run_tool_frame split: outcome.splits option.splits sum.splits)

lemma download_attempts_frame:
  "videos (snd (download_attempts e w vid out)) = videos w"
  "sources (snd (download_attempts e w vid out)) = sources w"
  "settings (snd (download_attempts e w vid out)) = settings w"
  by (simp_all add: download_attempts_def split_def Let_def
        get_cookie_file_frame run_tool_frame split: outcome.splits)

lemma try_download_failure:
  assumes "try_download e w i vid folder out = (r, w')"
  shows "(case r of
            Inl err \<Rightarrow> videos w' = videos w
          | Inr (ok, msg) \<Rightarrow>
              ok \<or> (\<exists>m. videos w' = (videos w)[i := (videos w ! i)\<lparr>failed_download := True, error_message := Some m\<rparr>]))"
proof -
  obtain r1 w1 where i: "get_video_info e w vid = (r1, w1)" by (cases "get_video_info e w vid")
  have v1: "videos w1 = videos w" using get_video_info_frame(1)[of e w vid] i by simp
  obtain r2 w2 where a: "download_attempts e w1 vid out = (r2, w2)" by (cases "download_attempts e w1 vid out")
  have v2: "videos w2 = videos w" using download_attempts_frame(1)[of e w1 vid out] a v1 by simp
  show ?thesis
    using assms v1 v2
    by (auto simp: try_download_def i a mark_failed_def set_video_def commit_def Let_def split_def
          split: sum.splits if_splits)
qed

lemma get_video_info_log:
  "filter is_download (tool_log (snd (get_video_info e w vid))) = filter is_download (tool_log w)"
  by (simp add: get_video_info_def get_video_info_body_def split_def Let_def is_download_def
        get_cookie_file_frame run_tool_frame split: outcome.splits option.splits sum.splits)

lemma run_tool_eq:
  "run_tool e w cmd = (fst (tool e (length (tool_log w)) cmd (files w)),
      w\<lparr>files := snd (tool e (length (tool_log w)) cmd (files w)), tool_log := tool_log w @ [cmd]\<rparr>)"
  by (simp add: run_tool_def split_def Let_def)

lemma download_attempts_both_fail:
  assumes "downloads_exit_nonzero e err"
  shows "\<exists>p w'. download_attempts e w vid out = (Inr p, w') \<and> returncode p \<noteq> 0 \<and> stderr p = err
           \<and> videos w' = videos w
           \<and> length (filter is_download (tool_log w')) = length (filter is_download (tool_log w)) + 2"
proof -
  obtain c w1 where c: "get_cookie_file e w = (c, w1)" by (cases "get_cookie_file e w")
  have f1: "videos w1 = videos w" "tool_log w1 = tool_log w"
    using get_cookie_file_frame(1,2)[of e w] c by simp_all
  let ?cmd1 = "[''yt-dlp'', ''-f'', ''bestvideo[ext=mp4]+bestaudio[ext=m4a]/best[ext=mp4]/best'',
                 ''--merge-output-format'', ''mp4'', ''--no-check-certificate'',
                 ''--write-thumbnail''] @ cookie_args c @
                [''-o'', out, ''https://www.youtube.com/watch?v='' @ vid]"
  let ?cmd2 = "[''yt-dlp'', ''-f'', ''best'', ''--no-check-certificate'',
                               ''--write-thumbnail''] @ cookie_args c @
                              [''-o'', out, ''https://www.youtube.com/watch?v='' @ vid]"
  have d1: "is_download ?cmd1" and d2: "is_download ?cmd2" by (simp_all add: is_download_def)
  obtain r1 w2 where r1: "run_tool e w1 ?cmd1 = (r1, w2)" by (cases "run_tool e w1 ?cmd1")
  have e1: "r1 = fst (tool e (length (tool_log w1)) ?cmd1 (files w1))"
    using r1 by (auto simp: run_tool_eq)
  from assms[unfolded downloads_exit_nonzero_def, rule_format, OF d1, of "length (tool_log w1)" "files w1"]
  obtain p1 where p1: "r1 = Completed p1" "returncode p1 \<noteq> 0"
    unfolding e1 by blast
  have f2: "videos w2 = videos w1" "tool_log w2 = tool_log w1 @ [?cmd1]"
    using r1 run_tool_frame(1,2)[of e w1 ?cmd1] by simp_all
  obtain r2 w3 where r2: "run_tool e w2 ?cmd2 = (r2, w3)" by (cases "run_tool e w2 ?cmd2")
  have e2: "r2 = fst (tool e (length (tool_log w2)) ?cmd2 (files w2))"
    using r2 by (auto simp: run_tool_eq)
  from assms[unfolded downloads_exit_nonzero_def, rule_format, OF d2, of "length (tool_log w2)" "files w2"]
  obtain p2 where p2: "r2 = Completed p2" "returncode p2 \<noteq> 0" "stderr p2 = err"
    unfolding e2 by blast
  have f3: "videos w3 = videos w2" "tool_log w3 = tool_log w2 @ [?cmd2]"
    using r2 run_tool_frame(1,2)[of e w2 ?cmd2] by simp_all
  have "download_attempts e w vid out = (Inr p2, w3)"
    using c r1 r2 p1 p2 by (simp add: download_attempts_def Let_def)
  moreover have "length (filter is_download (tool_log w3)) = length (filter is_download (tool_log w)) + 2"
    using f1 f2 f3 d1 d2 by simp
  ultimately show ?thesis using p2 f1 f2 f3 by simp
qed

lemma download_attempts_small:
  assumes "downloads_leave_small e out"
  shows "\<exists>p w'. download_attempts e w vid out = (Inr p, w') \<and> returncode p = 0
           \<and> file_too_small (files w') out
           \<and> videos w' = videos w
           \<and> length (filter is_download (tool_log w')) = length (filter is_download (tool_log w)) + 1"
proof -
  obtain c w1 where c: "get_cookie_file e w = (c, w1)" by (cases "get_cookie_file e w")
  have f1: "videos w1 = videos w" "tool_log w1 = tool_log w"
    using get_cookie_file_frame(1,2)[of e w] c by simp_all
  let ?cmd1 = "[''yt-dlp'', ''-f'', ''bestvideo[ext=mp4]+bestaudio[ext=m4a]/best[ext=mp4]/best'',
                 ''--merge-output-format'', ''mp4'', ''--no-check-certificate'',
                 ''--write-thumbnail''] @ cookie_args c @
                [''-o'', out, ''https://www.youtube.com/watch?v='' @ vid]"
  have d1: "is_download ?cmd1" by (simp_all add: is_download_def)
  obtain r1 w2 where r1: "run_tool e w1 ?cmd1 = (r1, w2)" by (cases "run_tool e w1 ?cmd1")
  have e1: "r1 = fst (tool e (length (tool_log w1)) ?cmd1 (files w1))"
    and e2: "files w2 = snd (tool e (length (tool_log w1)) ?cmd1 (files w1))"
    using r1 by (auto simp: run_tool_eq)
  from assms[unfolded downloads_leave_small_def, rule_format, OF d1, of "length (tool_log w1)" "files w1"]
  obtain p1 where p1: "r1 = Completed p1" "returncode p1 = 0" "file_too_small (files w2) out"
    unfolding e1 e2 by blast
  have f2: "videos w2 = videos w1" "tool_log w2 = tool_log w1 @ [?cmd1]"
    using r1 run_tool_frame(1,2)[of e w1 ?cmd1] by simp_all
  have "download_attempts e w vid out = (Inr p1, w2)"
    using c r1 p1 by (simp add: download_attempts_def Let_def)
  moreover have "length (filter is_download (tool_log w2)) = length (filter is_download (tool_log w)) + 1"
    using f1 f2 d1 by simp
  ultimately show ?thesis using p1 f1 f2 by simp
qed


lemma output_location_cong:
  assumes "settings w' = settings w" "sources w' = sources w" "subfolders w' = subfolders w"
    "title v' = title v" "video_id v' = video_id v" "video_source_id v' = video_source_id v"
  shows "output_location w' v' = output_location w v"
  unfolding output_location_def get_setting_def assms ..

lemma output_location_reset:
  "i < length (videos w) \<Longrightarrow>
   output_location (reset_failed i w) (videos (reset_failed i w) ! i) = output_location w (videos w ! i)"
  by (rule output_location_cong) (simp_all add: reset_failed_def set_video_def commit_def)

lemma reset_failed_frame:
  "tool_log (reset_failed i w) = tool_log w" "files (reset_failed i w) = files w"
  "length (videos (reset_failed i w)) = length (videos w)"
  by (simp_all add: reset_failed_def set_video_def commit_def)

lemma remove_existing_frame:
  "remove_existing e out w = Inr w2 \<Longrightarrow> videos w2 = videos w \<and> tool_log w2 = tool_log w"
  by (auto simp: remove_existing_def split: if_splits)

lemma length_truncated: "length (truncated s) \<le> 500"
  by (simp add: truncated_def)

lemma download_attempts_ok:
  assumes "downloads_succeed e out"
  shows "\<exists>p w'. download_attempts e w vid out = (Inr p, w') \<and> returncode p = 0
           \<and> \<not> file_too_small (files w') out
           \<and> videos w' = videos w"
proof -
  obtain c w1 where c: "get_cookie_file e w = (c, w1)" by (cases "get_cookie_file e w")
  have f1: "videos w1 = videos w"
    using get_cookie_file_frame(1)[of e w] c by simp
  let ?cmd1 = "[''yt-dlp'', ''-f'', ''bestvideo[ext=mp4]+bestaudio[ext=m4a]/best[ext=mp4]/best'',
                 ''--merge-output-format'', ''mp4'', ''--no-check-certificate'',
                 ''--write-thumbnail''] @ cookie_args c @
                [''-o'', out, ''https://www.youtube.com/watch?v='' @ vid]"
  have d1: "is_download ?cmd1" by (simp_all add: is_download_def)
  obtain r1 w2 where r1: "run_tool e w1 ?cmd1 = (r1, w2)" by (cases "run_tool e w1 ?cmd1")
  have e1: "r1 = fst (tool e (length (tool_log w1)) ?cmd1 (files w1))"
    and e2: "files w2 = snd (tool e (length (tool_log w1)) ?cmd1 (files w1))"
    using r1 by (auto simp: run_tool_eq)
  from assms[unfolded downloads_succeed_def, rule_format, OF d1, of "length (tool_log w1)" "files w1"]
  obtain p1 where p1: "r1 = Completed p1" "returncode p1 = 0" "\<not> file_too_small (files w2) out"
    unfolding e1 e2 by blast
  have f2: "videos w2 = videos w1"
    using r1 run_tool_frame(1)[of e w1 ?cmd1] by simp
  have "download_attempts e w vid out = (Inr p1, w2)"
    using c r1 p1 by (simp add: download_attempts_def Let_def)
  then show ?thesis using p1 f1 f2 by simp
qed

lemma handle_thumbnail_cases:
  "videos (handle_thumbnail e w i d folder out) = videos w
   \<or> (\<exists>t. videos (handle_thumbnail e w i d folder out) = (videos w)[i := (videos w ! i)\<lparr>thumbnail_url := Some t\<rparr>])"
  by (auto simp: handle_thumbnail_def set_thumbnail_url_def set_video_def Let_def split: option.splits)

lemma handle_thumbnail_videos:
  "\<exists>t. videos (handle_thumbnail e w i d folder out) = (videos w)[i := (videos w ! i)\<lparr>thumbnail_url := t\<rparr>]"
proof -
  have a: "(videos w)[i := (videos w ! i)\<lparr>thumbnail_url := thumbnail_url (videos w ! i)\<rparr>] = videos w"
    by (simp add: list_update_same_conv)
  from handle_thumbnail_cases[of e w i d folder out] show ?thesis
  proof
    assume "videos (handle_thumbnail e w i d folder out) = videos w"
    with a show ?thesis by metis
  next
    assume "\<exists>t. videos (handle_thumbnail e w i d folder out) = (videos w)[i := (videos w ! i)\<lparr>thumbnail_url := Some t\<rparr>]"
    then show ?thesis by blast
  qed
qed

lemma sidecar_videos:
  "videos (create_jellyfin_nfo e w v d dir) = videos w"
  "videos (create_plex_metadata e w v d dir) = videos w"
  by (simp_all add: create_jellyfin_nfo_def create_plex_metadata_def Let_def split: option.splits)

lemma download_video_success:
  assumes v: "find (\<lambda>v. video_id v = vid) (videos w) = Some v" "\<not> downloaded v"
      and loc: "output_location w v = Inr (folder, out)"
      and rem: "files w out = None \<or> \<not> fs_fails e out"
      and inv: "invocable e"
      and ok: "downloads_succeed e out"
  shows "\<exists>i w' t u. download_video e w vid = (Inr (True, ''Downloaded successfully: '' @ out), w')
           \<and> i < length (videos w) \<and> videos w ! i = v
           \<and> videos w' = (videos w)[i := v\<lparr>thumbnail_url := u, downloaded := True,
                 download_date := Some t, download_path := Some out,
                 failed_download := False, error_message := None\<rparr>]"
proof -
  from first_index_find[OF v(1)] obtain i where
    i: "first_index (\<lambda>v. video_id v = vid) (videos w) = Some i" "i < length (videos w)" "videos w ! i = v"
    by blast
  let ?w1 = "reset_failed i w"
  have loc1: "output_location ?w1 (videos ?w1 ! i) = Inr (folder, out)"
    using output_location_reset[OF i(2)] loc i by simp
  obtain w2 where w2: "remove_existing e out ?w1 = Inr w2"
    using rem by (cases "files w out = None") (simp_all add: remove_existing_def reset_failed_frame)
  have f2: "videos w2 = videos ?w1"
    using remove_existing_frame[OF w2] by simp
  have v1: "(videos ?w1)[i := (videos ?w1 ! i)\<lparr>thumbnail_url := u, downloaded := True,
                 download_date := Some t, download_path := Some out,
                 failed_download := False, error_message := None\<rparr>]
             = (videos w)[i := v\<lparr>thumbnail_url := u, downloaded := True,
                 download_date := Some t, download_path := Some out,
                 failed_download := False, error_message := None\<rparr>]" for u t
    using i by (simp add: reset_failed_def set_video_def commit_def)
  from get_video_info_total[OF inv] obtain d w3 where
    d: "get_video_info e w2 vid = (Inr d, w3)" by blast
  have f3: "videos w3 = videos w2"
    using get_video_info_frame(1)[of e w2 vid] d by simp
  from download_attempts_ok[OF ok, of w3 vid] obtain p w4 where
    a: "download_attempts e w3 vid out = (Inr p, w4)" "returncode p = 0"
       "\<not> file_too_small (files w4) out" "videos w4 = videos w3"
    by blast
  let ?w5 = "handle_thumbnail e w4 i d folder out"
  obtain u where u: "videos ?w5 = (videos w4)[i := (videos w4 ! i)\<lparr>thumbnail_url := u\<rparr>]"
    using handle_thumbnail_videos by blast
  let ?w6 = "create_jellyfin_nfo e ?w5 (videos ?w5 ! i) d folder"
  let ?w7 = "create_plex_metadata e ?w6 (videos ?w6 ! i) d folder"
  have v7: "videos ?w7 = videos ?w5" by (simp add: sidecar_videos)
  have len: "i < length (videos w4)"
    using a(4) f3 f2 i by (simp add: reset_failed_frame)
  have dv: "download_video e w vid =
              (case try_download e w2 i vid folder out of
                 (Inl err, w3) \<Rightarrow> (Inr (False, ''Exception: '' @ str_of err),
                               mark_failed i (truncated (str_of err)) w3)
               | (Inr r, w3) \<Rightarrow> (Inr r, w3))"
    using i v(2) loc1 w2 by (simp add: download_video_def Let_def)
  have td: "try_download e w2 i vid folder out =
          (Inr (True, ''Downloaded successfully: '' @ out),
           commit (set_video i ((videos (snd (utcnow ?w7)) ! i)\<lparr>downloaded := True,
                                   download_date := Some (fst (utcnow ?w7)), download_path := Some out,
                                   failed_download := False, error_message := None\<rparr>) (snd (utcnow ?w7))))"
    using d a by (simp add: try_download_def Let_def split_def)
  have "videos (commit (set_video i ((videos (snd (utcnow ?w7)) ! i)\<lparr>downloaded := True,
                                   download_date := Some (fst (utcnow ?w7)), download_path := Some out,
                                   failed_download := False, error_message := None\<rparr>) (snd (utcnow ?w7))))
        = (videos w)[i := v\<lparr>thumbnail_url := u, downloaded := True,
                 download_date := Some (fst (utcnow ?w7)), download_path := Some out,
                 failed_download := False, error_message := None\<rparr>]"
    using v7 u len a(4) f3 f2 v1[where u=u and t="fst (utcnow ?w7)"]
    by (simp add: commit_def set_video_def utcnow_def)
  with dv td i show ?thesis by auto
qed

text \<open>Facts about the concrete inputs of the worker.\<close>

lemma env_ok_simps:
  "tool env_ok n cmd fs = (Completed quiet_proc, if is_download cmd then fs(out0 \<mapsto> Binary 20000) else fs)"
  "loads env_ok s = None"
  "fs_fails env_ok p = False"
  "http_get env_ok u = None"
  "render_nfo env_ok v d = None"
  "render_plex env_ok v d = None"
  by (simp_all add: env_ok_def env0_def)

lemma sanitize_title: "sanitize ''First: the video'' = ''First_ the video''"
  by (simp add: sanitize_def unsafe_chars_def)

lemma scan_lost:
  "scan_library_pass w_lost = (1, commit (w_lost\<lparr>videos := [video0\<lparr>downloaded := False, download_path := Some out0,
                         download_date := Some 50, file_deleted := True, skip := True\<rparr>]\<rparr>))"
  by (simp add: scan_library_pass_def w_lost_def w_done_def w0_def file_missing_def video0_def Let_def)

lemma output_location_video0:
  "settings w = settings0 \<Longrightarrow> title v = Some ''First: the video'' \<Longrightarrow> video_source_id v = None \<or> subfolders w = [] \<and> sources w = [src_channel] \<Longrightarrow>
   output_location w v = Inr (''/data/First_ the video'', out0)"
  by (auto simp: output_location_def get_setting_def settings0_def sanitize_title path_join_def out0_def
       src_channel_def Let_def split: option.splits if_splits)



lemma env_small_simps:
  "tool env_small n cmd fs = (Completed quiet_proc, fs(out0 \<mapsto> Binary 100))"
  by (simp add: env_small_def env0_def)

lemma env_silent_simps:
  "tool env_silent n cmd fs = (Completed (quiet_proc\<lparr>returncode := 1\<rparr>), fs)"
  by (simp add: env_silent_def env0_def)

lemma invocable_envs:
  "invocable env_failing" "invocable env_small" "invocable env_silent" "invocable env_ok"
  by (simp_all add: invocable_def env_failing_simps env_small_simps env_silent_simps env_ok_simps)

lemma downloads_envs:
  "downloads_exit_nonzero env_failing ''ERROR: Video unavailable''"
  "downloads_exit_nonzero env_silent []"
  "downloads_leave_small env_small out0"
  "downloads_succeed env_ok out0"
  by (simp_all add: downloads_exit_nonzero_def downloads_leave_small_def downloads_succeed_def
        env_failing_simps env_small_simps env_silent_simps env_ok_simps failed_proc_def
        quiet_proc_def file_too_small_def)

lemma strip_error_text:
  "strip ''ERROR: Video unavailable'' = ''ERROR: Video unavailable''" "strip [] = []"
  by (simp_all add: strip_def is_space_def)

lemma w_pending_facts:
  "find (\<lambda>v. video_id v = ''v1'') (videos w_pending) = Some video0"
  "\<not> downloaded video0"
  "output_location w_pending video0 = Inr (''/data/First_ the video'', out0)"
  "files w_pending out0 = None"
  "videos w_pending = [video0]"
proof -
  show "find (\<lambda>v. video_id v = ''v1'') (videos w_pending) = Some video0"
    by (simp add: w_pending_def w0_def) (simp add: video0_def)
  show "\<not> downloaded video0" by (simp add: video0_def)
  show "output_location w_pending video0 = Inr (''/data/First_ the video'', out0)"
    by (rule output_location_video0) (simp_all add: w_pending_def w0_def video0_def)
  show "files w_pending out0 = None" by (simp add: w_pending_def w0_def)
  show "videos w_pending = [video0]" by (simp add: w_pending_def w0_def)
qed

text \<open>
  C5. On a row whose \<open>downloaded\<close> flag is true \<open>download_video\<close> returns success and the
  state it was given: no field of the row has changed, and nothing was added to the log
  of tool invocations.
\<close>

theorem download_video_idempotent:
  assumes "find (\<lambda>v. video_id v = vid) (videos w) = Some v" and "downloaded v"
  shows "download_video e w vid = (Inr (True, ''Video already downloaded''), w)"
proof -
  from first_index_find[OF assms(1)] obtain i where
    "first_index (\<lambda>v. video_id v = vid) (videos w) = Some i" "videos w ! i = v" by blast
  with assms(2) show ?thesis by (simp add: download_video_def)
qed

theorem download_video_idempotent_witness:
  "download_video env_failing w_done ''v1'' = (Inr (True, ''Video already downloaded''), w_done)"
proof -
  have a: "find (\<lambda>v. video_id v = ''v1'') (videos w_done) = Some (videos w_done ! 0)"
    by (simp add: w_done_def w0_def video0_def)
  have b: "downloaded (videos w_done ! 0)"
    by (simp add: w_done_def w0_def video0_def)
  from download_video_idempotent[OF a b] show ?thesis .
qed

text \<open>
  The two failures after the attempts, for a row that exists and is not downloaded, a
  destination that can be formed and cleared, and a tool that can be started.
\<close>

lemma download_video_failures:
  assumes v: "find (\<lambda>v. video_id v = vid) (videos w) = Some v" "\<not> downloaded v"
      and loc: "output_location w v = Inr (folder, out)"
      and rem: "files w out = None \<or> \<not> fs_fails e out"
      and inv: "invocable e"
  shows "(downloads_exit_nonzero e err \<longrightarrow>
            (\<exists>i w'. download_video e w vid = (Inr (False, ''yt-dlp error: '' @ strip err), w')
               \<and> i < length (videos w) \<and> videos w ! i = v
               \<and> videos w' = (videos w)[i := v\<lparr>failed_download := True,
                     error_message := Some (if strip err = [] then ''Unknown error''
                                            else take 500 (strip err))\<rparr>]
               \<and> length (filter is_download (tool_log w'))
                   = length (filter is_download (tool_log w)) + 2))
       \<and> (downloads_leave_small e out \<longrightarrow>
            (\<exists>i w'. download_video e w vid = (Inr (False, ''Download failed or file too small''), w')
               \<and> i < length (videos w) \<and> videos w ! i = v
               \<and> videos w' = (videos w)[i := v\<lparr>failed_download := True,
                     error_message := Some ''Download failed or file too small''\<rparr>]
               \<and> length (filter is_download (tool_log w'))
                   = length (filter is_download (tool_log w)) + 1))"
proof -
  from first_index_find[OF v(1)] obtain i where
    i: "first_index (\<lambda>v. video_id v = vid) (videos w) = Some i" "i < length (videos w)" "videos w ! i = v"
    by blast
  let ?w1 = "reset_failed i w"
  have loc1: "output_location ?w1 (videos ?w1 ! i) = Inr (folder, out)"
    using output_location_reset[OF i(2)] loc i by simp
  obtain w2 where w2: "remove_existing e out ?w1 = Inr w2"
    using rem by (cases "files w out = None") (simp_all add: remove_existing_def reset_failed_frame)
  have v1: "(videos ?w1)[i := (videos ?w1 ! i)\<lparr>failed_download := True, error_message := Some m\<rparr>]
             = (videos w)[i := v\<lparr>failed_download := True, error_message := Some m\<rparr>]" for m
    using i by (simp add: reset_failed_def set_video_def commit_def)
  have f2: "videos w2 = videos ?w1" "tool_log w2 = tool_log w"
    using remove_existing_frame[OF w2] by (simp_all add: reset_failed_frame)
  from get_video_info_total[OF inv] obtain d w3 where
    d: "get_video_info e w2 vid = (Inr d, w3)" by blast
  have f3: "videos w3 = videos w2" "filter is_download (tool_log w3) = filter is_download (tool_log w)"
    using get_video_info_frame(1)[of e w2 vid] get_video_info_log[of e w2 vid] d f2 by simp_all
  have dv: "download_video e w vid =
              (case try_download e w2 i vid folder out of
                 (Inl err, w3) \<Rightarrow> (Inr (False, ''Exception: '' @ str_of err),
                               mark_failed i (truncated (str_of err)) w3)
               | (Inr r, w3) \<Rightarrow> (Inr r, w3))"
    using i v(2) loc1 w2 by (simp add: download_video_def Let_def)
  have A: "\<exists>i w'. download_video e w vid = (Inr (False, ''yt-dlp error: '' @ strip err), w')
               \<and> i < length (videos w) \<and> videos w ! i = v
               \<and> videos w' = (videos w)[i := v\<lparr>failed_download := True,
                     error_message := Some (if strip err = [] then ''Unknown error''
                                            else take 500 (strip err))\<rparr>]
               \<and> length (filter is_download (tool_log w'))
                   = length (filter is_download (tool_log w)) + 2"
    if h: "downloads_exit_nonzero e err"
  proof -
    from download_attempts_both_fail[OF h, of w3 vid out] obtain p w4 where
      a: "download_attempts e w3 vid out = (Inr p, w4)" "returncode p \<noteq> 0" "stderr p = err"
         "videos w4 = videos w3"
         "length (filter is_download (tool_log w4)) = length (filter is_download (tool_log w3)) + 2"
      by blast
    have "try_download e w2 i vid folder out =
            (Inr (False, ''yt-dlp error: '' @ strip err), mark_failed i (truncated (strip err)) w4)"
      using d a by (simp add: try_download_def Let_def)
    with dv have "download_video e w vid =
            (Inr (False, ''yt-dlp error: '' @ strip err), mark_failed i (truncated (strip err)) w4)"
      by simp
    moreover have "videos (mark_failed i (truncated (strip err)) w4)
         = (videos w)[i := v\<lparr>failed_download := True, error_message := Some (truncated (strip err))\<rparr>]"
      using a(4) f3(1) f2(1) v1 by (simp add: mark_failed_def set_video_def commit_def)
    moreover have "tool_log (mark_failed i (truncated (strip err)) w4) = tool_log w4"
      by (simp add: mark_failed_def set_video_def commit_def)
    ultimately show ?thesis using i a(5) f3(2) by (auto simp: truncated_def)
  qed
  have B: "\<exists>i w'. download_video e w vid = (Inr (False, ''Download failed or file too small''), w')
               \<and> i < length (videos w) \<and> videos w ! i = v
               \<and> videos w' = (videos w)[i := v\<lparr>failed_download := True,
                     error_message := Some ''Download failed or file too small''\<rparr>]
               \<and> length (filter is_download (tool_log w'))
                   = length (filter is_download (tool_log w)) + 1"
    if h: "downloads_leave_small e out"
  proof -
    from download_attempts_small[OF h, of w3 vid] obtain p w4 where
      a: "download_attempts e w3 vid out = (Inr p, w4)" "returncode p = 0" "file_too_small (files w4) out"
         "videos w4 = videos w3"
         "length (filter is_download (tool_log w4)) = length (filter is_download (tool_log w3)) + 1"
      by blast
    have "try_download e w2 i vid folder out =
            (Inr (False, ''Download failed or file too small''), mark_failed i ''Download failed or file too small'' w4)"
      using d a by (simp add: try_download_def Let_def)
    with dv have "download_video e w vid =
            (Inr (False, ''Download failed or file too small''), mark_failed i ''Download failed or file too small'' w4)"
      by simp
    moreover have "videos (mark_failed i ''Download failed or file too small'' w4)
         = (videos w)[i := v\<lparr>failed_download := True, error_message := Some ''Download failed or file too small''\<rparr>]"
      using a(4) f3(1) f2(1) v1 by (simp add: mark_failed_def set_video_def commit_def)
    moreover have "tool_log (mark_failed i ''Download failed or file too small'' w4) = tool_log w4"
      by (simp add: mark_failed_def set_video_def commit_def)
    ultimately show ?thesis using i a(5) f3(2) by auto
  qed
  from A B show ?thesis by blast
qed




text \<open>
  C10. When \<open>download_video\<close> returns failure on a row that exists, the rows of the store
  are the ones before, except that the row of the video has \<open>failed_download\<close> set and a new
  \<open>error_message\<close>; its \<open>downloaded\<close>, \<open>skip\<close>, \<open>file_deleted\<close>, \<open>download_path\<close> and
  \<open>download_date\<close> are as before. This covers the failure of the tool, the missing or small
  file and the exception caught by the handler.
\<close>

theorem failed_download_frame:
  assumes "find (\<lambda>v. video_id v = vid) (videos w) = Some v"
      and "download_video e w vid = (Inr (False, msg), w')"
  shows "\<exists>i m. i < length (videos w) \<and> videos w ! i = v
           \<and> videos w' = (videos w)[i := v\<lparr>failed_download := True, error_message := Some m\<rparr>]
           \<and> downloaded (videos w' ! i) = downloaded v
           \<and> skip (videos w' ! i) = skip v
           \<and> file_deleted (videos w' ! i) = file_deleted v
           \<and> download_path (videos w' ! i) = download_path v
           \<and> download_date (videos w' ! i) = download_date v"
proof -
  from first_index_find[OF assms(1)] obtain i where
    i: "first_index (\<lambda>v. video_id v = vid) (videos w) = Some i" "i < length (videos w)" "videos w ! i = v"
    by blast
  have nd: "\<not> downloaded v" using assms(2) i by (auto simp: download_video_def)
  let ?w1 = "reset_failed i w"
  obtain folder out where loc: "output_location ?w1 (videos ?w1 ! i) = Inr (folder, out)"
    using assms(2) i nd
    by (cases "output_location ?w1 (videos ?w1 ! i)") (auto simp: download_video_def Let_def)
  obtain w2 where rem: "remove_existing e out ?w1 = Inr w2"
    using assms(2) i nd loc
    by (cases "remove_existing e out ?w1") (auto simp: download_video_def Let_def)
  obtain r w3 where t: "try_download e w2 i vid folder out = (r, w3)"
    by (cases "try_download e w2 i vid folder out")
  have v1: "videos ?w1 = videos w \<or> videos ?w1 = (videos w)[i := v\<lparr>failed_download := False, error_message := None\<rparr>]"
    using i by (simp add: reset_failed_def set_video_def commit_def)
  have v2: "videos w2 = videos ?w1"
    using rem by (auto simp: remove_existing_def split: if_splits)
  have fin: "\<exists>m. videos w' = (videos w2)[i := (videos w2 ! i)\<lparr>failed_download := True, error_message := Some m\<rparr>]"
    using assms(2) i nd loc rem t try_download_failure[OF t]
    by (auto simp: download_video_def Let_def mark_failed_def
          set_video_def commit_def split: sum.splits)
  then obtain m where m: "videos w' = (videos w2)[i := (videos w2 ! i)\<lparr>failed_download := True, error_message := Some m\<rparr>]" by blast
  have "videos w' = (videos w)[i := v\<lparr>failed_download := True, error_message := Some m\<rparr>]"
    using v1 v2 m i by auto
  with i show ?thesis by auto
qed

theorem failed_download_frame_witness:
  "fst (download_video env_failing w_pending ''v1'')
     = Inr (False, ''yt-dlp error: ERROR: Video unavailable'')
   \<and> map (\<lambda>v. (downloaded v, skip v, file_deleted v, download_path v, download_date v))
         (videos (snd (download_video env_failing w_pending ''v1'')))
       = [(False, False, False, None, None)]"
proof -
  from download_video_failures[OF w_pending_facts(1,2,3) disjI1[OF w_pending_facts(4)]
         invocable_envs(1), of "''ERROR: Video unavailable''"] downloads_envs(1)
  obtain w' where a:
    "download_video env_failing w_pending ''v1''
       = (Inr (False, ''yt-dlp error: ERROR: Video unavailable''), w')"
    by (auto simp: strip_error_text)
  from failed_download_frame[OF w_pending_facts(1) a]
  obtain i m where "i < length (videos w_pending)"
    "videos w' = (videos w_pending)[i := video0\<lparr>failed_download := True, error_message := Some m\<rparr>]"
    by blast
  with a show ?thesis
    by (simp add: w_pending_facts(5)) (simp add: video0_def)
qed

text \<open>
  C1. The flags \<open>downloaded\<close> and \<open>file_deleted\<close> are to exclude each other. Evaluated on
  the store \<open>w_lost\<close>, whose one video is recorded as downloaded while its file is gone:
  the scanner pass changes one row, which then has \<open>downloaded\<close> false and \<open>file_deleted\<close>
  true; \<open>download_video\<close> on that row succeeds in \<open>env_ok\<close>, and the row then has both
  \<open>downloaded\<close> and \<open>file_deleted\<close> true.
\<close>

theorem download_video_keeps_file_deleted:
  "fst (scan_library_pass w_lost) = 1
   \<and> map (\<lambda>v. (downloaded v, file_deleted v)) (videos (snd (scan_library_pass w_lost)))
       = [(False, True)]
   \<and> fst (download_video env_ok (snd (scan_library_pass w_lost)) ''v1'')
       = Inr (True, ''Downloaded successfully: '' @ out0)
   \<and> map (\<lambda>v. (downloaded v, file_deleted v))
         (videos (snd (download_video env_ok (snd (scan_library_pass w_lost)) ''v1'')))
       = [(True, True)]"
proof -
  let ?v = "video0\<lparr>downloaded := False, download_path := Some out0,
                    download_date := Some 50, file_deleted := True, skip := True\<rparr>"
  let ?w = "commit (w_lost\<lparr>videos := [?v]\<rparr>)"
  have f: "find (\<lambda>v. video_id v = ''v1'') (videos ?w) = Some ?v" "\<not> downloaded ?v"
    by (simp_all add: commit_def video0_def)
  have loc: "output_location ?w ?v = Inr (''/data/First_ the video'', out0)"
    by (rule output_location_video0)
       (simp_all add: commit_def w_lost_def w_done_def w0_def video0_def)
  have fs: "files ?w out0 = None \<or> \<not> fs_fails env_ok out0"
    by (simp add: commit_def w_lost_def)
  from download_video_success[OF f loc fs invocable_envs(4) downloads_envs(4)]
  obtain i w' t u where
    "download_video env_ok ?w ''v1'' = (Inr (True, ''Downloaded successfully: '' @ out0), w')"
    "i < length (videos ?w)"
    "videos w' = (videos ?w)[i := ?v\<lparr>thumbnail_url := u, downloaded := True,
                 download_date := Some t, download_path := Some out0,
                 failed_download := False, error_message := None\<rparr>]"
    by blast
  then show ?thesis
    by (simp add: scan_lost) (simp add: commit_def)
qed

theorem download_video_keeps_file_deleted_witness:
  "list_ex (\<lambda>v. downloaded v \<and> file_deleted v)
     (videos (snd (download_video env_ok (snd (scan_library_pass w_lost)) ''v1'')))"
proof -
  from download_video_keeps_file_deleted
  have "map (\<lambda>v. (downloaded v, file_deleted v))
         (videos (snd (download_video env_ok (snd (scan_library_pass w_lost)) ''v1'')))
       = [(True, True)]" by blast
  then show ?thesis by (auto simp: list_ex_iff)
qed


section \<open>The source poller\<close>













text \<open>
  The pass completes whenever the tool can be started and no object it prints has a
  null \<open>id\<close>.
\<close>

lemma id_of_merged:
  "id_of video_data \<noteq> JNull \<Longrightarrow> id_of detailed_info \<noteq> JNull \<Longrightarrow>
   id_of (preserve_extra_fields video_data detailed_info) \<noteq> JNull"
  by (auto simp: id_of_def dict_get_def map_of_preserve_extra_fields split: option.splits)

lemma get_video_info_loaded:
  "get_video_info e w vid = (Inr (Some d), w') \<Longrightarrow> \<exists>s. loads e s = Some d"
  by (auto simp: get_video_info_def get_video_info_body_def split_def Let_def
        split: outcome.splits option.splits sum.splits if_splits)

lemma enrich_lines_ids:
  assumes "ids_present e"
  shows "enrich_lines e lines w vids = (Inr ds, w') \<Longrightarrow> \<forall>d\<in>set vids. id_of d \<noteq> JNull
         \<Longrightarrow> \<forall>d\<in>set ds. id_of d \<noteq> JNull"
proof (induction lines arbitrary: w vids)
  case Nil
  then show ?case by simp
next
  case (Cons line rest)
  show ?case
  proof (cases "strip line = []")
    case True
    with Cons show ?thesis by simp
  next
    case False
    show ?thesis
    proof (cases "loads e line")
      case None
      with False Cons.prems show ?thesis by simp
    next
      case (Some video_data)
      with assms have vd: "id_of video_data \<noteq> JNull" by (auto simp: ids_present_def)
      show ?thesis
      proof (cases "dict_has video_data ''id''")
        case True
        obtain r w1 where r: "get_video_info e w (py_str (dict_get video_data ''id'' JNull)) = (r, w1)"
          by (cases "get_video_info e w (py_str (dict_get video_data ''id'' JNull))")
        show ?thesis
        proof (cases r)
          case (Inl err)
          with False Some True r Cons.prems show ?thesis by simp
        next
          case (Inr od)
          show ?thesis
          proof (cases od)
            case None
            with Inr False Some True r Cons.prems(1)
            have "enrich_lines e rest w1 (vids @ [video_data]) = (Inr ds, w')" by simp
            from Cons.IH[OF this] vd Cons.prems(2) show ?thesis by simp
          next
            case (Some detailed_info)
            with Inr r have "\<exists>s. loads e s = Some detailed_info"
              using get_video_info_loaded by blast
            with assms have dd: "id_of detailed_info \<noteq> JNull" by (auto simp: ids_present_def)
            show ?thesis
            proof (cases "detailed_info = []")
              case True
              with Some Inr False \<open>loads e line = Some video_data\<close> \<open>dict_has video_data ''id''\<close> r Cons.prems(1)
              have "enrich_lines e rest w1 (vids @ [video_data]) = (Inr ds, w')" by simp
              from Cons.IH[OF this] vd Cons.prems(2) show ?thesis by simp
            next
              case ne: False
              with Some Inr False \<open>loads e line = Some video_data\<close> \<open>dict_has video_data ''id''\<close> r Cons.prems(1)
              have "enrich_lines e rest w1 (vids @ [preserve_extra_fields video_data detailed_info]) = (Inr ds, w')"
                by simp
              from Cons.IH[OF this] id_of_merged[OF vd dd] Cons.prems(2) show ?thesis by simp
            qed
          qed
        qed
      next
        case no_id: False
        with False Some Cons.prems(1)
        have "enrich_lines e rest w (vids @ [video_data]) = (Inr ds, w')" by simp
        from Cons.IH[OF this] vd Cons.prems(2) show ?thesis by simp
      qed
    qed
  qed
qed

lemma flat_listing_ids:
  assumes "ids_present e" and "flat_listing e w url = (Inr ds, w')"
  shows "\<forall>d\<in>set ds. id_of d \<noteq> JNull"
proof -
  obtain c w1 where c: "get_cookie_file e w = (c, w1)" by (cases "get_cookie_file e w")
  obtain r w2 where r: "run_tool e w1 ([''yt-dlp'', url, ''--dump-json'', ''--flat-playlist''] @ cookie_args c) = (r, w2)"
    by (cases "run_tool e w1 ([''yt-dlp'', url, ''--dump-json'', ''--flat-playlist''] @ cookie_args c)")
  show ?thesis
  proof (cases r)
    case (NotInvocable m)
    with assms(2) c r show ?thesis by (simp add: flat_listing_def flat_listing_body_def)
  next
    case (Completed p)
    show ?thesis
    proof (cases "returncode p \<noteq> 0")
      case True
      with Completed assms(2) c r show ?thesis
        by (auto simp: flat_listing_def flat_listing_body_def)
    next
      case False
      obtain r3 w3 where e3: "enrich_lines e (splitlines (stdout p)) w2 [] = (r3, w3)"
        by (cases "enrich_lines e (splitlines (stdout p)) w2 []")
      show ?thesis
      proof (cases r3)
        case (Inl err)
        with False Completed assms(2) c r e3 show ?thesis
          by (auto simp: flat_listing_def flat_listing_body_def split: if_splits)
      next
        case (Inr ds')
        with False Completed assms(2) c r e3 have "ds' = ds"
          by (auto simp: flat_listing_def flat_listing_body_def)
        with enrich_lines_ids[OF assms(1), of "splitlines (stdout p)" w2 "[]" ds' w3] e3 Inr
        show ?thesis by simp
      qed
    qed
  qed
qed

lemma add_new_videos_total:
  "\<forall>d\<in>set ds. id_of d \<noteq> JNull \<Longrightarrow> \<exists>r. add_new_videos src ds vs n = Inr r"
proof (induction ds arbitrary: vs n)
  case Nil
  then show ?case by simp
next
  case (Cons d ds)
  then obtain vid where "id_of d = JStr vid" by (cases "id_of d") auto
  with Cons show ?case by simp
qed

lemma refresh_source_total:
  assumes "invocable e" "ids_present e"
  shows "\<exists>r w'. refresh_source e src w n = (Inr r, w')"
proof (cases "source_type src = ''video''")
  case True
  then show ?thesis by (simp add: refresh_source_def)
next
  case False
  have "\<exists>ds w1. resolve_source e w src = (Inr ds, w1) \<and> (\<forall>d\<in>set ds. id_of d \<noteq> JNull)"
    using flat_listing_total[OF assms(1)] flat_listing_ids[OF assms(2)]
    by (simp add: resolve_source_def get_channel_videos_def get_playlist_videos_def) metis
  then obtain ds w1 where r: "resolve_source e w src = (Inr ds, w1)" "\<forall>d\<in>set ds. id_of d \<noteq> JNull"
    by blast
  from add_new_videos_total[OF r(2)] obtain vs n1 where
    "add_new_videos src ds (videos w1) n = Inr (vs, n1)" by fastforce
  with False r(1) show ?thesis by (simp add: refresh_source_def utcnow_def)
qed

lemma refresh_loop_total:
  assumes "invocable e" "ids_present e"
  shows "\<exists>r w'. refresh_loop e srcs w n = (Inr r, w')"
proof (induction srcs arbitrary: w n)
  case Nil
  then show ?case by simp
next
  case (Cons src rest)
  from refresh_source_total[OF assms] obtain src1 n1 w1 where
    a: "refresh_source e src w n = (Inr (src1, n1), w1)" by fastforce
  from Cons[of w1 n1] obtain srcs n' w' where
    "refresh_loop e rest w1 n1 = (Inr (srcs, n'), w')" by fastforce
  with a show ?case by simp
qed

lemma refresh_sources_completes:
  assumes "invocable e" "ids_present e"
  shows "\<exists>r w'. refresh_sources e w = (Inr r, w')"
proof -
  from refresh_loop_total[OF assms] obtain srcs n w1 where
    "refresh_loop e (sources w) w 0 = (Inr (srcs, n), w1)" by fastforce
  then show ?thesis by (simp add: refresh_sources_def)
qed








section \<open>The poller loop\<close>

lemma checker_body_cases:
  "(\<exists>err. fst (checker_iteration_body e w) = Inl err)
   \<or> (\<exists>s n. get_setting w ''check_interval'' = Some s \<and> py_int e s = Some n \<and> 0 \<le> n
            \<and> fst (checker_iteration_body e w) = Inr [Sleep n])"
proof (cases "get_setting w ''check_interval''")
  case None
  then show ?thesis by (simp add: checker_iteration_body_def)
next
  case (Some s)
  note s = this
  show ?thesis
  proof (cases "py_int e s")
    case None
    with s show ?thesis by (simp add: checker_iteration_body_def)
  next
    case (Some n)
    note n = this
    show ?thesis
    proof (cases "get_setting w ''auto_download''")
      case None
      with s n show ?thesis by (simp add: checker_iteration_body_def)
    next
      case (Some a)
      obtain r w1 where r: "refresh_sources e w = (r, w1)" by (cases "refresh_sources e w")
      show ?thesis
      proof (cases r)
        case (Inl err)
        with s n Some r show ?thesis by (simp add: checker_iteration_body_def)
      next
        case (Inr counts)
        with s n Some r show ?thesis by (simp add: checker_iteration_body_def)
      qed
    qed
  qed
qed

lemma checker_iteration_fst:
  "fst (checker_iteration e w) =
     (case fst (checker_iteration_body e w) of Inl err \<Rightarrow> [Sleep 60] | Inr acts \<Rightarrow> acts)"
  by (cases "checker_iteration_body e w") (simp add: checker_iteration_def split: sum.splits)

lemma checker_iteration_one_sleep:
  "\<exists>n. fst (checker_iteration e w) = [Sleep n]"
  using checker_body_cases[of e w] by (auto simp: checker_iteration_fst)

lemma background_checker_length:
  "length (fst (background_checker e k w)) = k"
proof (induction k arbitrary: w)
  case 0
  then show ?case by simp
next
  case (Suc k)
  obtain acts w1 where a: "checker_iteration e w = (acts, w1)" by (cases "checker_iteration e w")
  from checker_iteration_one_sleep[of e w] a have "length acts = 1" by auto
  with Suc[of w1] a show ?case by (simp add: split_def Let_def)
qed

lemma settings_w0:
  "get_setting w0 ''check_interval'' = Some ''3600''"
  "get_setting w0 ''auto_download'' = Some ''true''"
  "get_setting w_sources ''check_interval'' = Some ''3600''"
  "get_setting w_sources ''auto_download'' = Some ''true''"
  "py_int env0 ''3600'' = Some 3600"
  "py_int env_no_tool ''3600'' = Some 3600"
  by (simp_all add: get_setting_def w_sources_def w0_def settings0_def env0_def env_no_tool_def)

lemma refresh_w0: "refresh_sources env0 w0 = (Inr (0, 0), commit w0)"
  by (simp add: refresh_sources_def w0_def commit_def)

lemma body_w0: "checker_iteration_body env0 w0 = (Inr [Sleep 3600], commit w0)"
  by (simp add: checker_iteration_body_def refresh_w0 settings_w0)

lemma iter_w0: "checker_iteration env0 w0 = ([Sleep 3600], commit w0)"
  by (simp add: checker_iteration_def body_w0)

lemma flat_listing_no_tool:
  assumes "settings w = settings0" "GLOBAL_COOKIE_FILE w = None"
  shows "fst (flat_listing env_no_tool w url) = Inl (OSError ''No such file or directory: yt-dlp'')"
  by (simp add: flat_listing_def flat_listing_body_def no_cookies[OF assms] run_tool_def
       env_no_tool_def cookie_args_def)

lemma body_no_tool:
  "fst (checker_iteration_body env_no_tool w_sources) = Inl (OSError ''No such file or directory: yt-dlp'')"
proof -
  have "fst (flat_listing env_no_tool w_sources (channel_url ''UC1'')) = Inl (OSError ''No such file or directory: yt-dlp'')"
    by (rule flat_listing_no_tool) (simp_all add: w_sources_def w0_def)
  then have "fst (refresh_source env_no_tool src_channel w_sources 0) = Inl (OSError ''No such file or directory: yt-dlp'')"
    by (cases "flat_listing env_no_tool w_sources (channel_url ''UC1'')")
       (simp add: refresh_source_def resolve_source_def get_channel_videos_def src_channel_def)
  then have "fst (refresh_sources env_no_tool w_sources) = Inl (OSError ''No such file or directory: yt-dlp'')"
    by (cases "refresh_source env_no_tool src_channel w_sources 0")
       (simp add: refresh_sources_def w_sources_def)
  then show ?thesis
    by (cases "refresh_sources env_no_tool w_sources") (simp add: checker_iteration_body_def settings_w0)
qed


text \<open>
  C9, as stated, fails. With the interval 3600 one iteration of the loop makes a single
  call of \<open>time.sleep\<close>, of 3600 seconds; there is no sleep of one second, and the loop
  has no running flag to look at.
\<close>

theorem one_long_sleep:
  "fst (background_checker env0 1 w0) = [Sleep 3600]
   \<and> Sleep 1 \<notin> set (fst (background_checker env0 1 w0))"
  by (simp add: iter_w0)

text \<open>
  C9, amended. Each iteration of the poller loop ends in one uninterrupted sleep: of 60
  seconds when the pass raised an exception, and otherwise of the configured check
  interval. The loop has no running flag and no cancellation check; it never leaves, so
  its first \<open>k\<close> iterations make \<open>k\<close> sleeps.
\<close>

theorem checker_sleeps:
  "(\<forall>err. fst (checker_iteration_body e w) = Inl err \<longrightarrow> fst (checker_iteration e w) = [Sleep 60])
   \<and> (\<forall>acts. fst (checker_iteration_body e w) = Inr acts \<longrightarrow>
        (\<exists>s n. get_setting w ''check_interval'' = Some s \<and> py_int e s = Some n \<and> 0 \<le> n
              \<and> fst (checker_iteration e w) = [Sleep n]))
   \<and> length (fst (background_checker e k w)) = k"
proof -
  have a: "\<forall>err. fst (checker_iteration_body e w) = Inl err \<longrightarrow> fst (checker_iteration e w) = [Sleep 60]"
    by (simp add: checker_iteration_fst)
  have b: "\<forall>acts. fst (checker_iteration_body e w) = Inr acts \<longrightarrow>
        (\<exists>s n. get_setting w ''check_interval'' = Some s \<and> py_int e s = Some n \<and> 0 \<le> n
              \<and> fst (checker_iteration e w) = [Sleep n])"
    using checker_body_cases[of e w] by (auto simp: checker_iteration_fst)
  from a b background_checker_length show ?thesis by blast
qed

theorem checker_sleeps_witness:
  "fst (checker_iteration_body env_no_tool w_sources) = Inl (OSError ''No such file or directory: yt-dlp'')
   \<and> fst (checker_iteration env_no_tool w_sources) = [Sleep 60]
   \<and> fst (checker_iteration_body env0 w0) = Inr [Sleep 3600]
   \<and> fst (checker_iteration env0 w0) = [Sleep 3600]
   \<and> length (fst (background_checker env0 5 w0)) = 5"
proof -
  have b: "fst (checker_iteration_body env0 w0) = Inr [Sleep 3600]" by (simp add: body_w0)
  from checker_sleeps[of env_no_tool w_sources 5] body_no_tool
  have 1: "fst (checker_iteration env_no_tool w_sources) = [Sleep 60]" by blast
  from checker_sleeps[of env0 w0 5]
  have 2: "length (fst (background_checker env0 5 w0)) = 5" by blast
  from 1 2 b body_no_tool iter_w0 show ?thesis by simp
qed


end
